theory Spec2Isabelle
  imports Main
begin

section \<open>Session store: sessionService.ts\<close>

text \<open>
  The table \<open>vp_sessions\<close> is a list of rows. Every \<open>pool.query\<close> either runs its one
  SQL statement on the table or throws; the flag \<open>fault\<close> of an operation says that its
  query throws, which the source catches. Dates are milliseconds since the epoch. The column
  \<open>id\<close> is \<open>session_id\<close> here; the JSONB columns \<open>presentation_definition\<close> and
  \<open>presentation_submission\<close> are kept as their JSON text.
\<close>

datatype session_status = Pending | Completed | Expired | Failed

record VPSession =
  session_id :: string
  state :: string
  nonce :: string
  presentation_definition :: string
  redirect_uri :: "string option"
  client_id :: "string option"
  response_mode :: "string option"
  created_at :: int
  expires_at :: int
  status :: session_status
  vp_token :: "string option"
  presentation_submission :: "string option"
  completed_at :: "int option"

type_synonym vp_sessions = "VPSession list"

text \<open>\<open>UPDATE vp_sessions SET status = $1 WHERE id = $2\<close>: the new table and the row count.\<close>

definition sql_update_status :: "vp_sessions \<Rightarrow> session_status \<Rightarrow> string \<Rightarrow> vp_sessions \<times> nat" where
  "sql_update_status db st sessionId =
     (map (\<lambda>r. if session_id r = sessionId then r\<lparr>status := st\<rparr> else r) db,
      length (filter (\<lambda>r. session_id r = sessionId) db))"

definition updateSessionStatus :: "vp_sessions \<Rightarrow> bool \<Rightarrow> string \<Rightarrow> session_status \<Rightarrow> vp_sessions \<times> bool" where
  "updateSessionStatus db fault sessionId st =
     (if fault then (db, False)
      else (let result = sql_update_status db st sessionId in (fst result, snd result > 0)))"

text \<open>\<open>SELECT * FROM vp_sessions WHERE state = $1\<close>.\<close>

definition sql_select_by_state :: "vp_sessions \<Rightarrow> string \<Rightarrow> VPSession list" where
  "sql_select_by_state db st = filter (\<lambda>r. state r = st) db"

definition getVPSessionByState ::
  "vp_sessions \<Rightarrow> bool \<Rightarrow> bool \<Rightarrow> int \<Rightarrow> string \<Rightarrow> vp_sessions \<times> VPSession option" where
  "getVPSessionByState db fault_select fault_update now st =
     (if fault_select then (db, None)
      else (case sql_select_by_state db st of
              [] \<Rightarrow> (db, None)
            | row # _ \<Rightarrow>
                (if status row = Pending \<and> now > expires_at row
                 then (fst (updateSessionStatus db fault_update (session_id row) Expired),
                       Some (row\<lparr>status := Expired\<rparr>))
                 else (db, Some row))))"

text \<open>
  The single statement of \<open>completeVPSession\<close>:
  \<open>UPDATE vp_sessions SET vp_token = $1, presentation_submission = $2, status = 'completed',
  completed_at = CURRENT_TIMESTAMP WHERE id = $3 AND status = 'pending' RETURNING *\<close>.
\<close>

definition is_pending_row :: "string \<Rightarrow> VPSession \<Rightarrow> bool" where
  "is_pending_row sessionId r = (session_id r = sessionId \<and> status r = Pending)"

definition set_completed :: "int \<Rightarrow> string \<Rightarrow> string \<Rightarrow> VPSession \<Rightarrow> VPSession" where
  "set_completed now vpToken submission r =
     r\<lparr>vp_token := Some vpToken, presentation_submission := Some submission,
       status := Completed, completed_at := Some now\<rparr>"

definition sql_complete :: "vp_sessions \<Rightarrow> int \<Rightarrow> string \<Rightarrow> string \<Rightarrow> string \<Rightarrow> vp_sessions \<times> nat" where
  "sql_complete db now vpToken submission sessionId =
     (map (\<lambda>r. if is_pending_row sessionId r then set_completed now vpToken submission r else r) db,
      length (filter (is_pending_row sessionId) db))"

definition completeVPSession ::
  "vp_sessions \<Rightarrow> bool \<Rightarrow> int \<Rightarrow> string \<Rightarrow> string \<Rightarrow> string \<Rightarrow> vp_sessions \<times> bool" where
  "completeVPSession db fault now sessionId vpToken presentationSubmission =
     (if fault then (db, False)
      else (let result = sql_complete db now vpToken presentationSubmission sessionId
            in if snd result = 0 then (fst result, False) else (fst result, True)))"

text \<open>
  Each completion attempt is one SQL statement, so concurrent attempts on one session run in
  some order, one after the other. An attempt carries its own fault flag, clock reading,
  token and submission; \<open>complete_attempts\<close> runs a schedule and collects the answers.
\<close>

type_synonym attempt = "bool \<times> int \<times> string \<times> string"

fun complete_attempts :: "vp_sessions \<Rightarrow> string \<Rightarrow> attempt list \<Rightarrow> vp_sessions \<times> bool list" where
  "complete_attempts db sessionId [] = (db, [])"
| "complete_attempts db sessionId ((fault, now, tok, sub) # rest) =
     (let r = completeVPSession db fault now sessionId tok sub;
          rs = complete_attempts (fst r) sessionId rest
      in (fst rs, snd r # snd rs))"

definition no_pending :: "vp_sessions \<Rightarrow> string \<Rightarrow> bool" where
  "no_pending db sessionId = (\<forall>r \<in> set db. \<not> is_pending_row sessionId r)"

definition successes :: "bool list \<Rightarrow> nat" where
  "successes oks = length (filter (\<lambda>b. b) oks)"

text \<open>A session as \<open>createVPSession\<close> stores it, used in the examples.\<close>

definition example_session :: VPSession where
  "example_session =
     \<lparr>session_id = ''s1'', state = ''st1'', nonce = ''n1'', presentation_definition = ''pd-1'',
      redirect_uri = None, client_id = None, response_mode = Some ''direct_post'',
      created_at = 0, expires_at = 900000, status = Pending, vp_token = None,
      presentation_submission = None, completed_at = None\<rparr>"

section \<open>Presentation matcher: lib/presentationDefinition.ts\<close>

text \<open>
  The interfaces of the source, with the members the matcher reads. A field's \<open>optional\<close>
  member and a descriptor's \<open>constraints.fields\<close> may be absent (\<open>None\<close>); an absent
  \<open>optional\<close> is falsy.
\<close>

record ConstraintField =
  field_path :: "string list"
  field_optional :: "bool option"

record InputDescriptor =
  descriptor_id :: string
  descriptor_name :: "string option"
  constraints_fields :: "ConstraintField list option"

record PresentationDefinition =
  pd_id :: string
  input_descriptors :: "InputDescriptor list"

record DescriptorMapEntry =
  entry_id :: string
  entry_format :: string
  entry_path :: string

record PresentationSubmission =
  submission_id :: string
  definition_id :: string
  descriptor_map :: "DescriptorMapEntry list"

text \<open>
  An element of the presentation's credential array: an object, a string (a credential in
  JWT form) or \<open>null\<close>. Only its truthiness is read: \<open>null\<close> and the empty string are falsy.
\<close>

datatype credential_entry = CredentialObject string | CredentialString string | CredentialNull

record VerifiablePresentation =
  verifiable_credential :: "credential_entry list option"
  verifiableCredential :: "credential_entry list option"
  holder :: "string option"
  vp_presentation_submission :: "PresentationSubmission option"

record EvaluationResult =
  eval_valid :: bool
  eval_errors :: "string list option"
  matchedDescriptors :: "string list option"

fun truthy_credential :: "credential_entry \<Rightarrow> bool" where
  "truthy_credential (CredentialObject _) = True"
| "truthy_credential (CredentialString s) = (s \<noteq> [])"
| "truthy_credential CredentialNull = False"

definition is_digit :: "char \<Rightarrow> bool" where
  "is_digit c = (c \<in> set ''0123456789'')"

definition digit_value :: "char \<Rightarrow> nat" where
  "digit_value c = of_char c - 48"

text \<open>\<open>parseInt(digits, 10)\<close> on a string of decimal digits.\<close>

definition decimal_value :: "string \<Rightarrow> nat" where
  "decimal_value ds = foldl (\<lambda>n c. 10 * n + digit_value c) 0 ds"

text \<open>
  The regular expression \<open>/\[(\d+)\]/\<close> tried at the character after an opening bracket:
  one or more digits, then the closing bracket.
\<close>

definition match_index_after_bracket :: "string \<Rightarrow> nat option" where
  "match_index_after_bracket s =
     (let ds = takeWhile is_digit s; rest = dropWhile is_digit s
      in if ds \<noteq> [] \<and> rest \<noteq> [] \<and> hd rest = CHR '']'' then Some (decimal_value ds) else None)"

text \<open>\<open>path.match(/\[(\d+)\]/)\<close>: the leftmost match; \<open>-1\<close> when there is none.\<close>

fun extractIndexFromPath :: "string \<Rightarrow> int" where
  "extractIndexFromPath [] = -1"
| "extractIndexFromPath (c # cs) =
     (if c = CHR ''[''
      then (case match_index_after_bracket cs of
              Some n \<Rightarrow> int n
            | None \<Rightarrow> extractIndexFromPath cs)
      else extractIndexFromPath cs)"

text \<open>\<open>credentials[i]\<close> is truthy: the index is inside the array and the element is truthy.\<close>

definition credential_at :: "credential_entry list \<Rightarrow> int \<Rightarrow> bool" where
  "credential_at credentials i =
     (0 \<le> i \<and> nat i < length credentials \<and> truthy_credential (credentials ! nat i))"

text \<open>\<open>descriptor.constraints.fields?.some((f) => f.optional)\<close>, \<open>undefined\<close> read as falsy.\<close>

definition fields_some_optional :: "InputDescriptor \<Rightarrow> bool" where
  "fields_some_optional d =
     (case constraints_fields d of
        None \<Rightarrow> False
      | Some fs \<Rightarrow> list_ex (\<lambda>f. field_optional f = Some True) fs)"

text \<open>\<open>d.constraints.fields?.every((f) => f.optional)\<close>, \<open>undefined\<close> read as falsy.\<close>

definition fields_every_optional :: "InputDescriptor \<Rightarrow> bool" where
  "fields_every_optional d =
     (case constraints_fields d of
        None \<Rightarrow> False
      | Some fs \<Rightarrow> list_all (\<lambda>f. field_optional f = Some True) fs)"

definition find_mapping :: "PresentationSubmission \<Rightarrow> InputDescriptor \<Rightarrow> DescriptorMapEntry option" where
  "find_mapping submission d = find (\<lambda>m. entry_id m = descriptor_id d) (descriptor_map submission)"

text \<open>One turn of the loop over \<open>pd.input_descriptors\<close>, on the pair (errors, matchedDescriptors).\<close>

definition descriptor_step ::
  "PresentationSubmission \<Rightarrow> credential_entry list \<Rightarrow> string list \<times> string list \<Rightarrow> InputDescriptor
   \<Rightarrow> string list \<times> string list" where
  "descriptor_step submission credentials acc d =
     (case find_mapping submission d of
        None \<Rightarrow>
          (if \<not> fields_some_optional d
           then (fst acc @ [''No mapping found for required descriptor: '' @ descriptor_id d], snd acc)
           else acc)
      | Some mapping \<Rightarrow>
          (let credentialIndex = extractIndexFromPath (entry_path mapping)
           in if credentialIndex = -1 \<or> \<not> credential_at credentials credentialIndex
              then (fst acc @ [''Credential not found at path '' @ entry_path mapping @
                               '' for descriptor '' @ descriptor_id d], snd acc)
              else (fst acc, snd acc @ [descriptor_id d])))"

definition requiredDescriptors :: "PresentationDefinition \<Rightarrow> InputDescriptor list" where
  "requiredDescriptors pd = filter (\<lambda>d. \<not> fields_every_optional d) (input_descriptors pd)"

definition vp_credentials :: "VerifiablePresentation \<Rightarrow> credential_entry list" where
  "vp_credentials vp =
     (case verifiable_credential vp of
        Some cs \<Rightarrow> cs
      | None \<Rightarrow> (case verifiableCredential vp of Some cs \<Rightarrow> cs | None \<Rightarrow> []))"

definition evaluatePresentationSubmission ::
  "VerifiablePresentation \<Rightarrow> PresentationDefinition \<Rightarrow> EvaluationResult" where
  "evaluatePresentationSubmission vp pd =
     (case vp_presentation_submission vp of
        None \<Rightarrow> \<lparr>eval_valid = False,
                 eval_errors = Some [''Missing presentation_submission in VP''],
                 matchedDescriptors = None\<rparr>
      | Some submission \<Rightarrow>
          if definition_id submission \<noteq> pd_id pd
          then \<lparr>eval_valid = False,
                eval_errors = Some [''Definition ID mismatch: expected '' @ pd_id pd @
                                    '', got '' @ definition_id submission],
                matchedDescriptors = None\<rparr>
          else
            (let credentials = vp_credentials vp;
                 looped = foldl (descriptor_step submission credentials) ([], []) (input_descriptors pd);
                 matched = snd looped;
                 allRequiredMatched =
                   list_all (\<lambda>d. descriptor_id d \<in> set matched) (requiredDescriptors pd);
                 errors = (if \<not> allRequiredMatched
                           then fst looped @ [''Not all required descriptors are satisfied'']
                           else fst looped)
             in if errors \<noteq> []
                then \<lparr>eval_valid = False, eval_errors = Some errors, matchedDescriptors = Some matched\<rparr>
                else \<lparr>eval_valid = True, eval_errors = None, matchedDescriptors = Some matched\<rparr>))"

text \<open>
  What the claims speak of: a descriptor is resolved when its entry in the descriptor map
  leads to an existing credential; it is non-optional when the source counts it among
  \<open>requiredDescriptors\<close>.
\<close>

definition resolves :: "VerifiablePresentation \<Rightarrow> PresentationSubmission \<Rightarrow> InputDescriptor \<Rightarrow> bool" where
  "resolves vp submission d =
     (case find_mapping submission d of
        None \<Rightarrow> False
      | Some mapping \<Rightarrow> credential_at (vp_credentials vp) (extractIndexFromPath (entry_path mapping)))"

definition has_mapping :: "PresentationSubmission \<Rightarrow> InputDescriptor \<Rightarrow> bool" where
  "has_mapping submission d = (find_mapping submission d \<noteq> None)"

text \<open>What one turn of the loop appends to the error list and to the matched list.\<close>

definition descriptor_errors ::
  "PresentationSubmission \<Rightarrow> credential_entry list \<Rightarrow> InputDescriptor \<Rightarrow> string list" where
  "descriptor_errors submission credentials d = fst (descriptor_step submission credentials ([], []) d)"

definition descriptor_matches ::
  "PresentationSubmission \<Rightarrow> credential_entry list \<Rightarrow> InputDescriptor \<Rightarrow> string list" where
  "descriptor_matches submission credentials d = snd (descriptor_step submission credentials ([], []) d)"

text \<open>The definitions and presentations of the examples.\<close>

definition required_descriptor :: InputDescriptor where
  "required_descriptor =
     \<lparr>descriptor_id = ''id_credential'', descriptor_name = None, constraints_fields = None\<rparr>"

definition optional_descriptor :: InputDescriptor where
  "optional_descriptor =
     \<lparr>descriptor_id = ''loyalty_card'', descriptor_name = None,
      constraints_fields = Some [\<lparr>field_path = [''$.type''], field_optional = Some True\<rparr>]\<rparr>"

definition example_pd :: PresentationDefinition where
  "example_pd = \<lparr>pd_id = ''pd-1'', input_descriptors = [required_descriptor, optional_descriptor]\<rparr>"

definition example_submission :: "DescriptorMapEntry list \<Rightarrow> PresentationSubmission" where
  "example_submission entries =
     \<lparr>submission_id = ''sub-1'', definition_id = ''pd-1'', descriptor_map = entries\<rparr>"

definition example_vp :: "DescriptorMapEntry list \<Rightarrow> VerifiablePresentation" where
  "example_vp entries =
     \<lparr>verifiable_credential = None,
      verifiableCredential = Some [CredentialString ''eyJ.vc.sig''],
      holder = None,
      vp_presentation_submission = Some (example_submission entries)\<rparr>"

definition entry_required :: DescriptorMapEntry where
  "entry_required =
     \<lparr>entry_id = ''id_credential'', entry_format = ''jwt_vc'', entry_path = ''$.verifiableCredential[0]''\<rparr>"

definition entry_optional_dangling :: DescriptorMapEntry where
  "entry_optional_dangling =
     \<lparr>entry_id = ''loyalty_card'', entry_format = ''jwt_vc'', entry_path = ''$.verifiableCredential[5]''\<rparr>"

section \<open>JavaScript values read by the validators\<close>

text \<open>
  Decoded JSON. An object holds its properties in enumeration order, each name once;
  \<open>undefined\<close> is the \<open>None\<close> of \<open>json option\<close>. Numbers are integers: the numbers read
  here are thresholds and timestamps in seconds.
\<close>

datatype json =
    JNull
  | JBool bool
  | JNum int
  | JStr string
  | JArr "json list"
  | JObj "(string \<times> json) list"

fun truthy_value :: "json \<Rightarrow> bool" where
  "truthy_value JNull = False"
| "truthy_value (JBool b) = b"
| "truthy_value (JNum n) = (n \<noteq> 0)"
| "truthy_value (JStr s) = (s \<noteq> [])"
| "truthy_value (JArr _) = True"
| "truthy_value (JObj _) = True"

definition truthy :: "json option \<Rightarrow> bool" where
  "truthy v = (case v of None \<Rightarrow> False | Some j \<Rightarrow> truthy_value j)"

text \<open>
  \<open>v.name\<close> on a value that is neither \<open>null\<close> nor \<open>undefined\<close>. None of the names the
  validators read is an index or a built-in member, so only objects answer.
\<close>

fun member_of :: "json \<Rightarrow> string \<Rightarrow> json option" where
  "member_of (JObj kvs) k = map_of kvs k"
| "member_of _ k = None"

text \<open>\<open>v?.name\<close>: \<open>undefined\<close> when \<open>v\<close> is \<open>null\<close> or \<open>undefined\<close>.\<close>

definition opt_member :: "json option \<Rightarrow> string \<Rightarrow> json option" where
  "opt_member v k = (case v of None \<Rightarrow> None | Some j \<Rightarrow> member_of j k)"

text \<open>\<open>a || b\<close>.\<close>

definition js_or :: "json option \<Rightarrow> json option \<Rightarrow> json option" where
  "js_or a b = (if truthy a then a else b)"

definition digit_char :: "nat \<Rightarrow> char" where
  "digit_char n = ''0123456789'' ! n"

text \<open>The decimal numeral of a number, as a template literal prints an integer.\<close>

fun show_nat :: "nat \<Rightarrow> string" where
  "show_nat n = (if n < 10 then [digit_char n] else show_nat (n div 10) @ [digit_char (n mod 10)])"

definition show_int :: "int \<Rightarrow> string" where
  "show_int i = (if i < 0 then CHR ''-'' # show_nat (nat (- i)) else show_nat (nat i))"

text \<open>\<open>Object.keys(v)\<close> for a truthy value: property names, or the indices of an array or string.\<close>

fun object_keys :: "json \<Rightarrow> string list" where
  "object_keys (JObj kvs) = map fst kvs"
| "object_keys (JArr xs) = map show_nat [0..<length xs]"
| "object_keys (JStr s) = map show_nat [0..<length s]"
| "object_keys _ = []"

definition is_space :: "char \<Rightarrow> bool" where
  "is_space c = (c \<in> set [CHR '' '', CHR 0x09, CHR 0x0A, CHR 0x0B, CHR 0x0C, CHR 0x0D])"

text \<open>
  \<open>parseInt(s, 10)\<close>: leading white space (the ASCII white space characters), an optional
  sign, then the longest run of digits; \<open>NaN\<close> (\<open>None\<close>) when there is no digit.
\<close>

definition parseInt10 :: "string \<Rightarrow> int option" where
  "parseInt10 s =
     (let s1 = dropWhile is_space s;
          negative = (s1 \<noteq> [] \<and> hd s1 = CHR ''-'');
          s2 = (if s1 \<noteq> [] \<and> (hd s1 = CHR ''-'' \<or> hd s1 = CHR ''+'') then tl s1 else s1);
          ds = takeWhile is_digit s2
      in if ds = [] then None
         else Some (if negative then - int (decimal_value ds) else int (decimal_value ds)))"

text \<open>\<open>s.split(c)\<close> for a one-character separator: always at least one part.\<close>

fun split_on :: "char \<Rightarrow> string \<Rightarrow> string list" where
  "split_on c [] = [[]]"
| "split_on c (x # xs) =
     (if x = c then [] # split_on c xs
      else (case split_on c xs of
              p # ps \<Rightarrow> (x # p) # ps
            | [] \<Rightarrow> [[x]]))"

text \<open>\<open>xs.join(sep)\<close> on strings.\<close>

fun js_join :: "string \<Rightarrow> string list \<Rightarrow> string" where
  "js_join sep [] = []"
| "js_join sep [x] = x"
| "js_join sep (x # y # ys) = x @ sep @ js_join sep (y # ys)"

text \<open>
  \<open>new Date(ms)\<close> is a valid date only within 8.64e15 milliseconds of the epoch; outside,
  comparisons with it are false and \<open>toISOString\<close> throws.
\<close>

definition date_of_ms :: "int \<Rightarrow> int option" where
  "date_of_ms ms = (if - 8640000000000000 \<le> ms \<and> ms \<le> 8640000000000000 then Some ms else None)"

section \<open>Trust resolver: services/TrustResolver.ts\<close>

datatype trust_framework = EBSI | EUDI_LAUNCHPAD | NATIONAL | CUSTOM

datatype anchor_state = Active | Suspended | Revoked

record TrustAnchor =
  did :: string
  anchor_name :: string
  trustFramework :: trust_framework
  anchor_status :: anchor_state
  validFrom :: int
  validUntil :: "int option"

record TrustResolverConfig =
  enableEBSI :: bool
  enableEUDILaunchpad :: bool
  enableMockTrustAnchors :: bool
  cacheTTL :: "int option"

record TrustCheck =
  trusted :: bool
  anchor :: "TrustAnchor option"
  reason :: "string option"

text \<open>\<open>trustAnchorCache\<close>: issuer identifier to the cached anchor and the time it was stored.\<close>

type_synonym trust_cache = "string \<Rightarrow> (TrustAnchor \<times> int) option"

definition DEFAULT_CACHE_TTL :: int where
  "DEFAULT_CACHE_TTL = 3600"

definition MOCK_TRUST_ANCHORS :: "TrustAnchor list" where
  "MOCK_TRUST_ANCHORS =
     [\<lparr>did = ''did:ebsi:znxntxQrN3Xqe7RGTd3KQJ4'', anchor_name = ''European Commission - EBSI Root'',
       trustFramework = EBSI, anchor_status = Active,
       validFrom = 1704067200000, validUntil = Some 1893369600000\<rparr>,
      \<lparr>did = ''did:web:identity.foundation'', anchor_name = ''Decentralized Identity Foundation'',
       trustFramework = CUSTOM, anchor_status = Active,
       validFrom = 1672531200000, validUntil = None\<rparr>]"

text \<open>The default value of the parameter \<open>config\<close>, used when the caller passes none.\<close>

definition default_trust_config :: TrustResolverConfig where
  "default_trust_config =
     \<lparr>enableEBSI = False, enableEUDILaunchpad = False, enableMockTrustAnchors = True, cacheTTL = None\<rparr>"

definition effective_config :: "TrustResolverConfig option \<Rightarrow> TrustResolverConfig" where
  "effective_config config = (case config of None \<Rightarrow> default_trust_config | Some c \<Rightarrow> c)"

text \<open>\<open>(config.cacheTTL || DEFAULT_CACHE_TTL) * 1000\<close>: an absent or zero TTL is falsy.\<close>

definition cache_ttl_ms :: "TrustResolverConfig \<Rightarrow> int" where
  "cache_ttl_ms config =
     (case cacheTTL config of
        None \<Rightarrow> DEFAULT_CACHE_TTL
      | Some t \<Rightarrow> if t = 0 then DEFAULT_CACHE_TTL else t) * 1000"

text \<open>
  \<open>anchor.status === 'active' && (!anchor.validUntil || anchor.validUntil > new Date())\<close>,
  with \<open>today\<close> the reading of \<open>new Date()\<close>.
\<close>

definition anchor_is_valid :: "TrustAnchor \<Rightarrow> int \<Rightarrow> bool" where
  "anchor_is_valid a today =
     (anchor_status a = Active \<and> (case validUntil a of None \<Rightarrow> True | Some t \<Rightarrow> t > today))"

text \<open>
  The body of the \<open>try\<close> block of \<open>isTrustedIssuer\<close>, over the anchor list, the cache, the
  reading \<open>now\<close> of \<open>Date.now()\<close> and the later reading \<open>today\<close> of \<open>new Date()\<close>. It returns
  the cache as it leaves it and the answer.
\<close>

definition isTrustedIssuer ::
  "TrustAnchor list \<Rightarrow> trust_cache \<Rightarrow> TrustResolverConfig option \<Rightarrow> int \<Rightarrow> int \<Rightarrow> string
   \<Rightarrow> trust_cache \<times> TrustCheck" where
  "isTrustedIssuer anchors cache config now today d =
     (let cfg = effective_config config;
          ttl = cache_ttl_ms cfg;
          fresh = (case cache d of None \<Rightarrow> None
                   | Some entry \<Rightarrow> if now - snd entry < ttl then Some (fst entry) else None)
      in case fresh of
           Some cached \<Rightarrow>
             (let isValid = anchor_is_valid cached today
              in (cache, \<lparr>trusted = isValid, anchor = Some cached,
                          reason = Some (if isValid then ''Trusted anchor (cached)''
                                         else ''Anchor expired or revoked'')\<rparr>))
         | None \<Rightarrow>
             (case (if enableMockTrustAnchors cfg then find (\<lambda>a. did a = d) anchors else None) of
                Some mockAnchor \<Rightarrow>
                  (let isValid = anchor_is_valid mockAnchor today
                   in (cache(d \<mapsto> (mockAnchor, now)),
                       \<lparr>trusted = isValid, anchor = Some mockAnchor,
                        reason = Some (if isValid then ''Trusted anchor (mock)''
                                       else ''Anchor expired or revoked'')\<rparr>))
              | None \<Rightarrow>
                  (cache, \<lparr>trusted = False, anchor = None,
                           reason = Some ''Not in trust anchor list''\<rparr>)))"

text \<open>The \<open>catch\<close> clause of \<open>isTrustedIssuer\<close>, for an exception with the given message.\<close>

definition isTrustedIssuer_catch :: "string \<Rightarrow> TrustCheck" where
  "isTrustedIssuer_catch errorMessage =
     \<lparr>trusted = False, anchor = None, reason = Some (''Error: '' @ errorMessage)\<rparr>"

text \<open>
  The cache is one map for the whole process, written only by \<open>isTrustedIssuer\<close> (and emptied
  by \<open>clearTrustCaches\<close>). A call is its configuration, its two clock readings and the
  identifier asked for; \<open>trust_cache_after\<close> is the cache that a history of calls, each with
  a configuration of its own, leaves when it starts from the empty cache.
\<close>

type_synonym trust_call = "TrustResolverConfig option \<times> int \<times> int \<times> string"

fun trust_cache_run :: "TrustAnchor list \<Rightarrow> trust_cache \<Rightarrow> trust_call list \<Rightarrow> trust_cache" where
  "trust_cache_run anchors cache [] = cache"
| "trust_cache_run anchors cache ((config, now, today, d) # rest) =
     trust_cache_run anchors (fst (isTrustedIssuer anchors cache config now today d)) rest"

definition trust_cache_after :: "TrustAnchor list \<Rightarrow> trust_call list \<Rightarrow> trust_cache" where
  "trust_cache_after anchors calls = trust_cache_run anchors Map.empty calls"

text \<open>
  The cache invariant: an entry for an issuer holds an anchor of the anchor list with that
  identifier.
\<close>

definition cache_coherent :: "TrustAnchor list \<Rightarrow> trust_cache \<Rightarrow> bool" where
  "cache_coherent anchors cache =
     (\<forall>d a ts. cache d = Some (a, ts) \<longrightarrow> a \<in> set anchors \<and> did a = d)"

text \<open>A configuration that switches the mock anchors off, for the examples.\<close>

definition mock_disabled_config :: TrustResolverConfig where
  "mock_disabled_config =
     \<lparr>enableEBSI = False, enableEUDILaunchpad = False, enableMockTrustAnchors = False,
      cacheTTL = None\<rparr>"

section \<open>Credential validator: services/VCValidator.ts\<close>

record VerificationMethod =
  vm_id :: string
  vm_type :: string
  vm_controller :: string
  publicKeyJwk :: "string option"

datatype method_entry = MethodReference string | MethodObject VerificationMethod

record DIDDocument =
  doc_id :: string
  verificationMethod :: "VerificationMethod list option"
  assertionMethod :: "method_entry list option"

record DIDResolution =
  success :: bool
  document :: "DIDDocument option"
  resolution_error :: "string option"

record JWTVerificationResult =
  jwt_valid :: bool
  jwt_payload :: "json option"
  jwt_error :: "string option"

text \<open>
  What the validators call outside this core, as functions of their arguments: decoding
  (\<open>Inl\<close> is the message of the exception thrown), DID resolution, signature verification
  with a key, and the \<open>Date\<close> and number conversions of the runtime on values that are not
  numbers (\<open>None\<close> is an invalid date or \<open>NaN\<close>).
\<close>

record validator_env =
  parse_payload :: "string \<Rightarrow> string + json"
  sdJwtDecode :: "string \<Rightarrow> string + json"
  resolveDID :: "json \<Rightarrow> TrustResolverConfig option \<Rightarrow> DIDResolution"
  verifyJWTWithJWK :: "string \<Rightarrow> string \<Rightarrow> JWTVerificationResult"
  parse_date :: "json \<Rightarrow> int option"
  to_number :: "json \<Rightarrow> int option"
  toISOString :: "int \<Rightarrow> string"
  parse_ymd :: "json \<Rightarrow> (int \<times> int \<times> int) option"

text \<open>The three readings of the clock in one validation, in the order they are taken.\<close>

record clock_readings =
  at_expiry_check :: int
  at_trust_now :: int
  at_trust_today :: int

record VCValidationOptions =
  checkTrust :: "bool option"
  checkExpiration :: "bool option"
  checkRevocation :: "bool option"
  trustConfig :: "TrustResolverConfig option"

text \<open>
  The result of \<open>validateVC\<close>; \<open>vc_issuanceDate\<close> and \<open>vc_expirationDate\<close> hold the value
  whose \<open>toString()\<close> the source reports.
\<close>

record VCValidationResult =
  vc_valid :: bool
  vc_errors :: "string list option"
  vc_warnings :: "string list option"
  vc_issuer :: "json option"
  vc_issuanceDate :: "json option"
  vc_expirationDate :: "json option"
  vc_trusted :: "bool option"
  vc_credentialSubject :: "json option"

text \<open>\<open>s || fallback\<close> for an optional string.\<close>

definition string_or :: "string option \<Rightarrow> string \<Rightarrow> string" where
  "string_or s fallback = (case s of None \<Rightarrow> fallback | Some v \<Rightarrow> if v = [] then fallback else v)"

text \<open>The key that the first entry of \<open>assertionMethod\<close> leads to, if any.\<close>

definition assertion_key :: "DIDDocument \<Rightarrow> string option" where
  "assertion_key didDocument =
     (case assertionMethod didDocument of
        None \<Rightarrow> None
      | Some [] \<Rightarrow> None
      | Some (MethodObject vm # _) \<Rightarrow> publicKeyJwk vm
      | Some (MethodReference ref # _) \<Rightarrow>
          (case verificationMethod didDocument of
             None \<Rightarrow> None
           | Some vms \<Rightarrow>
               (case find (\<lambda>v. vm_id v = ref) vms of
                  None \<Rightarrow> None
                | Some vm \<Rightarrow> publicKeyJwk vm)))"

definition extractPublicKeyFromDID :: "DIDDocument \<Rightarrow> string option" where
  "extractPublicKeyFromDID didDocument =
     (case assertion_key didDocument of
        Some k \<Rightarrow> Some k
      | None \<Rightarrow>
          (case verificationMethod didDocument of
             None \<Rightarrow> None
           | Some vms \<Rightarrow>
               (case find (\<lambda>vm. publicKeyJwk vm \<noteq> None) vms of
                  None \<Rightarrow> None
                | Some vm \<Rightarrow> publicKeyJwk vm)))"

text \<open>
  Step 1 of \<open>validateVC\<close>: the payload and the issuer, or the one error message with which
  the function returns.
\<close>

definition vc_decode :: "validator_env \<Rightarrow> string \<Rightarrow> string + (json \<times> json)" where
  "vc_decode env vcJWT =
     (let parts = split_on CHR ''.'' vcJWT
      in if length parts \<noteq> 3 then Inl ''Invalid JWT format - expected 3 parts''
         else (case parse_payload env (parts ! 1) of
                 Inl message \<Rightarrow> Inl (''Failed to decode VC JWT: '' @ message)
               | Inr vcPayload \<Rightarrow>
                   if vcPayload = JNull
                   then Inl ''Failed to decode VC JWT: Cannot read properties of null (reading 'iss')''
                   else (case js_or (js_or (member_of vcPayload ''iss'')
                                           (opt_member (member_of vcPayload ''vc'') ''issuer''))
                                    (member_of vcPayload ''issuer'') of
                           None \<Rightarrow> Inl ''Missing issuer in credential''
                         | Some issuerDID \<Rightarrow>
                             if truthy_value issuerDID then Inr (vcPayload, issuerDID)
                             else Inl ''Missing issuer in credential'')))"

definition vc_failure :: "string list \<Rightarrow> json option \<Rightarrow> VCValidationResult" where
  "vc_failure errors issuer =
     \<lparr>vc_valid = False, vc_errors = Some errors, vc_warnings = None, vc_issuer = issuer,
      vc_issuanceDate = None, vc_expirationDate = None, vc_trusted = None,
      vc_credentialSubject = None\<rparr>"

text \<open>The required members of the credential: each one missing is an error.\<close>

definition vc_field_errors :: "json \<Rightarrow> string list" where
  "vc_field_errors vc =
     (if \<not> truthy (member_of vc ''@context'') then [''Missing required field: @context''] else []) @
     (if \<not> truthy (member_of vc ''type'') then [''Missing required field: type''] else []) @
     (if \<not> truthy (member_of vc ''credentialSubject'')
      then [''Missing required field: credentialSubject''] else [])"

text \<open>\<open>(Array.isArray(vc.type) ? vc.type : [vc.type]).includes('VerifiableCredential')\<close>.\<close>

definition includes_vc_type :: "json \<Rightarrow> bool" where
  "includes_vc_type vc =
     (case member_of vc ''type'' of
        Some (JArr types) \<Rightarrow> JStr ''VerifiableCredential'' \<in> set types
      | Some t \<Rightarrow> t = JStr ''VerifiableCredential''
      | None \<Rightarrow> False)"

definition vc_type_warnings :: "json \<Rightarrow> string list" where
  "vc_type_warnings vc =
     (if \<not> includes_vc_type vc then [''type array should include '' @ [CHR 0x22] @ ''VerifiableCredential'' @ [CHR 0x22]] else [])"

text \<open>Step 6: the expiry date as a \<open>Date\<close>, and the error when it lies before the clock.\<close>

definition vc_expDate :: "validator_env \<Rightarrow> json \<Rightarrow> int option" where
  "vc_expDate env expirationDate =
     (case expirationDate of
        JNum n \<Rightarrow> date_of_ms (n * 1000)
      | other \<Rightarrow> parse_date env other)"

definition vc_expiration_errors :: "validator_env \<Rightarrow> bool \<Rightarrow> int \<Rightarrow> json option \<Rightarrow> string list" where
  "vc_expiration_errors env check now expirationDate =
     (case expirationDate of
        None \<Rightarrow> []
      | Some e \<Rightarrow>
          if check \<and> truthy_value e
          then (case vc_expDate env e of
                  None \<Rightarrow> []
                | Some expDate \<Rightarrow>
                    if expDate < now then [''Credential expired on '' @ toISOString env expDate] else [])
          else [])"

text \<open>
  \<open>isTrustedIssuer(issuerDID, config)\<close> for the issuer value found in the token. An issuer
  that is not a string equals no key of the cache and no \<open>did\<close> of the list.
\<close>

definition trust_lookup ::
  "TrustAnchor list \<Rightarrow> trust_cache \<Rightarrow> TrustResolverConfig option \<Rightarrow> clock_readings \<Rightarrow> json
   \<Rightarrow> trust_cache \<times> TrustCheck" where
  "trust_lookup anchors cache config clock issuerDID =
     (case issuerDID of
        JStr d \<Rightarrow> isTrustedIssuer anchors cache config (at_trust_now clock) (at_trust_today clock) d
      | _ \<Rightarrow> (cache, \<lparr>trusted = False, anchor = None, reason = Some ''Not in trust anchor list''\<rparr>))"

text \<open>Steps 5 to 8 and the returned result, for the credential object \<open>vc\<close>.\<close>

definition vc_finish ::
  "validator_env \<Rightarrow> TrustAnchor list \<Rightarrow> trust_cache \<Rightarrow> clock_readings \<Rightarrow> VCValidationOptions
   \<Rightarrow> json \<Rightarrow> json \<Rightarrow> json \<Rightarrow> trust_cache \<times> VCValidationResult" where
  "vc_finish env anchors cache clock options vcPayload issuerDID vc =
     (let opt_checkTrust = (case checkTrust options of None \<Rightarrow> True | Some b \<Rightarrow> b);
          opt_checkExpiration = (case checkExpiration options of None \<Rightarrow> True | Some b \<Rightarrow> b);
          opt_checkRevocation = (case checkRevocation options of None \<Rightarrow> False | Some b \<Rightarrow> b);
          issuanceDate = js_or (member_of vc ''issuanceDate'') (member_of vcPayload ''iat'');
          expirationDate = js_or (member_of vc ''expirationDate'') (member_of vcPayload ''exp'');
          errors = vc_field_errors vc @
                   vc_expiration_errors env opt_checkExpiration (at_expiry_check clock) expirationDate;
          trustCheck = (if opt_checkTrust
                        then Some (trust_lookup anchors cache (trustConfig options) clock issuerDID)
                        else None);
          cache' = (case trustCheck of None \<Rightarrow> cache | Some r \<Rightarrow> fst r);
          is_trusted = (case trustCheck of None \<Rightarrow> False | Some r \<Rightarrow> trusted (snd r));
          warnings = vc_type_warnings vc @
                     (case trustCheck of
                        None \<Rightarrow> []
                      | Some r \<Rightarrow>
                          if \<not> trusted (snd r)
                          then [''Issuer not in trust anchor list: '' @
                                string_or (reason (snd r)) ''Unknown reason'']
                          else []) @
                     (if opt_checkRevocation then [''Revocation checking not yet implemented''] else [])
      in if errors \<noteq> []
         then (cache', \<lparr>vc_valid = False, vc_errors = Some errors, vc_warnings = Some warnings,
                        vc_issuer = Some issuerDID, vc_issuanceDate = issuanceDate,
                        vc_expirationDate = expirationDate, vc_trusted = Some is_trusted,
                        vc_credentialSubject = None\<rparr>)
         else (cache', \<lparr>vc_valid = True, vc_errors = None,
                        vc_warnings = (if warnings \<noteq> [] then Some warnings else None),
                        vc_issuer = Some issuerDID, vc_issuanceDate = issuanceDate,
                        vc_expirationDate = expirationDate, vc_trusted = Some is_trusted,
                        vc_credentialSubject = member_of vc ''credentialSubject''\<rparr>))"

definition validateVC ::
  "validator_env \<Rightarrow> TrustAnchor list \<Rightarrow> trust_cache \<Rightarrow> clock_readings \<Rightarrow> string
   \<Rightarrow> VCValidationOptions \<Rightarrow> trust_cache \<times> VCValidationResult" where
  "validateVC env anchors cache clock vcJWT options =
     (case vc_decode env vcJWT of
        Inl message \<Rightarrow> (cache, vc_failure [message] None)
      | Inr (vcPayload, issuerDID) \<Rightarrow>
          (let didResolution = resolveDID env issuerDID (trustConfig options)
           in case (if success didResolution then document didResolution else None) of
                None \<Rightarrow>
                  (cache, vc_failure [''Failed to resolve issuer DID: '' @
                                      string_or (resolution_error didResolution) ''Unknown error'']
                            (Some issuerDID))
              | Some didDocument \<Rightarrow>
                  (case extractPublicKeyFromDID didDocument of
                     None \<Rightarrow>
                       (cache, vc_failure
                          [''No verification method with publicKeyJwk found in DID document'']
                          (Some issuerDID))
                   | Some publicKey \<Rightarrow>
                       (let verification = verifyJWTWithJWK env vcJWT publicKey
                        in if \<not> jwt_valid verification
                           then (cache, vc_failure [''JWT signature verification failed: '' @
                                                    string_or (jwt_error verification) ''Unknown error'']
                                          (Some issuerDID))
                           else (case js_or (opt_member (jwt_payload verification) ''vc'')
                                            (jwt_payload verification) of
                                   None \<Rightarrow>
                                     (cache, vc_failure [''Missing vc claim in JWT payload'']
                                               (Some issuerDID))
                                 | Some vc \<Rightarrow>
                                     if \<not> truthy_value vc
                                     then (cache, vc_failure [''Missing vc claim in JWT payload'']
                                                    (Some issuerDID))
                                     else vc_finish env anchors cache clock options
                                            vcPayload issuerDID vc)))))"

text \<open>Collaborators and a token for the examples: an issuer that resolves but is no trust anchor.\<close>

definition example_did_document :: DIDDocument where
  "example_did_document =
     \<lparr>doc_id = ''did:web:unknown.example'',
      verificationMethod =
        Some [\<lparr>vm_id = ''did:web:unknown.example#keys-1'', vm_type = ''JsonWebKey2020'',
               vm_controller = ''did:web:unknown.example'', publicKeyJwk = Some ''jwk-1''\<rparr>],
      assertionMethod = Some [MethodReference ''did:web:unknown.example#keys-1'']\<rparr>"

definition example_vc_payload :: json where
  "example_vc_payload =
     JObj [(''iss'', JStr ''did:web:unknown.example''),
           (''iat'', JNum 1700000000),
           (''vc'', JObj [(''@context'', JArr [JStr ''https://www.w3.org/2018/credentials/v1'']),
                          (''type'', JArr [JStr ''VerifiableCredential'']),
                          (''credentialSubject'', JObj [(''id'', JStr ''did:example:holder'')])])]"

definition example_sd_decoded :: "json \<Rightarrow> json" where
  "example_sd_decoded disclosures =
     JObj [(''jwt'', JObj [(''payload'', JObj [(''iss'', JStr ''did:web:unknown.example''),
                                                (''iat'', JNum 1700000000)])]),
           (''disclosures'', disclosures)]"

definition example_env :: "json \<Rightarrow> validator_env" where
  "example_env disclosures =
     \<lparr>parse_payload = (\<lambda>_. Inr example_vc_payload),
      sdJwtDecode = (\<lambda>_. Inr (example_sd_decoded disclosures)),
      resolveDID = (\<lambda>_ _. \<lparr>success = True, document = Some example_did_document,
                            resolution_error = None\<rparr>),
      verifyJWTWithJWK = (\<lambda>_ _. \<lparr>jwt_valid = True, jwt_payload = Some example_vc_payload,
                                  jwt_error = None\<rparr>),
      parse_date = (\<lambda>_. None),
      to_number = (\<lambda>_. None),
      toISOString = (\<lambda>_. ''2023-11-14T22:13:20.000Z''),
      parse_ymd = (\<lambda>_. Some (1990, 0, 15))\<rparr>"

definition example_clock :: clock_readings where
  "example_clock =
     \<lparr>at_expiry_check = 1793577600000, at_trust_now = 1793577600001,
      at_trust_today = 1793577600002\<rparr>"

definition default_vc_options :: VCValidationOptions where
  "default_vc_options =
     \<lparr>checkTrust = None, checkExpiration = None, checkRevocation = None, trustConfig = None\<rparr>"

section \<open>Selective disclosure: services/SDJWTValidator.ts\<close>

record SDJWTValidationOptions =
  sd_checkTrust :: "bool option"
  sd_checkExpiration :: "bool option"
  sd_trustConfig :: "TrustResolverConfig option"
  requireMinimumDisclosures :: "int option"

record SDJWTValidationResult =
  sd_valid :: bool
  sd_errors :: "string list option"
  sd_warnings :: "string list option"
  sd_issuer :: "json option"
  disclosedClaims :: "json option"
  sd_issuanceDate :: "string option"
  sd_expirationDate :: "string option"
  sd_trusted :: "bool option"
  disclosureCount :: "nat option"

text \<open>
  The helper of this file: \<open>didDocument.assertionMethod?.[0]?.publicKeyJwk\<close>, then
  \<open>didDocument.verificationMethod?.[0]?.publicKeyJwk\<close>. A reference (a string) has no key.
\<close>

definition sd_extractPublicKeyFromDID :: "DIDDocument \<Rightarrow> string option" where
  "sd_extractPublicKeyFromDID didDocument =
     (case (case assertionMethod didDocument of
              Some (MethodObject vm # _) \<Rightarrow> publicKeyJwk vm
            | _ \<Rightarrow> None) of
        Some k \<Rightarrow> Some k
      | None \<Rightarrow>
          (case verificationMethod didDocument of
             Some (vm # _) \<Rightarrow> publicKeyJwk vm
           | _ \<Rightarrow> None))"

definition sd_failure :: "string list \<Rightarrow> json option \<Rightarrow> SDJWTValidationResult" where
  "sd_failure errors issuer =
     \<lparr>sd_valid = False, sd_errors = Some errors, sd_warnings = None, sd_issuer = issuer,
      disclosedClaims = None, sd_issuanceDate = None, sd_expirationDate = None,
      sd_trusted = None, disclosureCount = None\<rparr>"

text \<open>The outer \<open>catch\<close> clause of \<open>validateSDJWT\<close>.\<close>

definition sd_catch :: "string \<Rightarrow> SDJWTValidationResult" where
  "sd_catch errorMessage = sd_failure [''Validation error: '' @ errorMessage] None"

text \<open>
  \<open>opts.requireMinimumDisclosures && disclosureCount < opts.requireMinimumDisclosures\<close>:
  the warning pushed, if any. An absent or zero requirement is falsy.
\<close>

definition minimum_disclosure_warnings :: "int option \<Rightarrow> nat \<Rightarrow> string list" where
  "minimum_disclosure_warnings required count =
     (case required of
        None \<Rightarrow> []
      | Some n \<Rightarrow>
          if n \<noteq> 0 \<and> int count < n
          then [''Only '' @ show_nat count @ '' claims disclosed, required minimum: '' @ show_int n]
          else [])"

text \<open>\<open>x * 1000\<close> as the milliseconds of a \<open>Date\<close>, for a truthy member \<open>x\<close> of the payload.\<close>

definition seconds_to_date :: "validator_env \<Rightarrow> json \<Rightarrow> int option" where
  "seconds_to_date env x =
     (case (case x of JNum n \<Rightarrow> Some n | other \<Rightarrow> to_number env other) of
        None \<Rightarrow> None
      | Some n \<Rightarrow> date_of_ms (n * 1000))"

text \<open>
  \<open>x ? new Date(x * 1000).toISOString() : undefined\<close>; \<open>toISOString\<close> throws a
  \<open>RangeError\<close> on an invalid date (\<open>Inl\<close>).
\<close>

definition iso_of_seconds :: "validator_env \<Rightarrow> json option \<Rightarrow> string + string option" where
  "iso_of_seconds env x =
     (case x of
        None \<Rightarrow> Inr None
      | Some v \<Rightarrow>
          if \<not> truthy_value v then Inr None
          else (case seconds_to_date env v of
                  None \<Rightarrow> Inl ''Invalid time value''
                | Some ms \<Rightarrow> Inr (Some (toISOString env ms))))"

definition sd_expiration_errors :: "validator_env \<Rightarrow> bool \<Rightarrow> int \<Rightarrow> json option \<Rightarrow> string list" where
  "sd_expiration_errors env check now exp =
     (case exp of
        None \<Rightarrow> []
      | Some e \<Rightarrow>
          if check \<and> truthy_value e
          then (case seconds_to_date env e of
                  None \<Rightarrow> []
                | Some expDate \<Rightarrow>
                    if expDate < now then [''SD-JWT expired on '' @ toISOString env expDate] else [])
          else [])"

text \<open>Steps 7 to 9 and the returned result, after the issuer's signature has verified.\<close>

definition sd_finish ::
  "validator_env \<Rightarrow> TrustAnchor list \<Rightarrow> trust_cache \<Rightarrow> clock_readings \<Rightarrow> SDJWTValidationOptions
   \<Rightarrow> json \<Rightarrow> json \<Rightarrow> json option \<Rightarrow> trust_cache \<times> SDJWTValidationResult" where
  "sd_finish env anchors cache clock options decodedSDJWT issuerDID verified_payload =
     (let opt_checkTrust = (case sd_checkTrust options of None \<Rightarrow> True | Some b \<Rightarrow> b);
          opt_checkExpiration = (case sd_checkExpiration options of None \<Rightarrow> True | Some b \<Rightarrow> b);
          claims = js_or (member_of decodedSDJWT ''disclosures'') (Some (JObj []));
          count = (case claims of None \<Rightarrow> 0 | Some c \<Rightarrow> length (object_keys c));
          warnings1 = minimum_disclosure_warnings (requireMinimumDisclosures options) count;
          payload = js_or verified_payload (Some (JObj []))
      in case iso_of_seconds env (opt_member payload ''iat'') of
           Inl message \<Rightarrow> (cache, sd_catch message)
         | Inr issuanceDate \<Rightarrow>
             (case iso_of_seconds env (opt_member payload ''exp'') of
                Inl message \<Rightarrow> (cache, sd_catch message)
              | Inr expirationDate \<Rightarrow>
                  (let errors = sd_expiration_errors env opt_checkExpiration (at_expiry_check clock)
                                  (opt_member payload ''exp'');
                       trustCheck = (if opt_checkTrust
                                     then Some (trust_lookup anchors cache (sd_trustConfig options)
                                                  clock issuerDID)
                                     else None);
                       cache' = (case trustCheck of None \<Rightarrow> cache | Some r \<Rightarrow> fst r);
                       is_trusted = (case trustCheck of None \<Rightarrow> False | Some r \<Rightarrow> trusted (snd r));
                       warnings = warnings1 @
                         (case trustCheck of
                            None \<Rightarrow> []
                          | Some r \<Rightarrow>
                              if \<not> trusted (snd r)
                              then [''Issuer not in trust anchor list: '' @
                                    string_or (reason (snd r)) ''Unknown'']
                              else [])
                   in if errors \<noteq> []
                      then (cache', \<lparr>sd_valid = False, sd_errors = Some errors,
                                     sd_warnings = Some warnings, sd_issuer = Some issuerDID,
                                     disclosedClaims = None, sd_issuanceDate = None,
                                     sd_expirationDate = None, sd_trusted = None,
                                     disclosureCount = Some count\<rparr>)
                      else (cache', \<lparr>sd_valid = True, sd_errors = None,
                                     sd_warnings = (if warnings \<noteq> [] then Some warnings else None),
                                     sd_issuer = Some issuerDID, disclosedClaims = claims,
                                     sd_issuanceDate = issuanceDate,
                                     sd_expirationDate = expirationDate,
                                     sd_trusted = Some is_trusted,
                                     disclosureCount = Some count\<rparr>))))"

text \<open>Step 3: \<open>jwt?.payload?.iss || jwt?.payload?.issuer || payload?.iss\<close> of the decoded token.\<close>

definition sd_issuer_of :: "json \<Rightarrow> json option" where
  "sd_issuer_of decodedSDJWT =
     (let jwtPayload = opt_member (member_of decodedSDJWT ''jwt'') ''payload''
      in js_or (js_or (opt_member jwtPayload ''iss'') (opt_member jwtPayload ''issuer''))
               (opt_member (member_of decodedSDJWT ''payload'') ''iss''))"

definition validateSDJWT ::
  "validator_env \<Rightarrow> TrustAnchor list \<Rightarrow> trust_cache \<Rightarrow> clock_readings \<Rightarrow> string
   \<Rightarrow> SDJWTValidationOptions \<Rightarrow> trust_cache \<times> SDJWTValidationResult" where
  "validateSDJWT env anchors cache clock sdJwtToken options =
     (case split_on CHR ''~'' sdJwtToken of
        [] \<Rightarrow> (cache, sd_failure [''Invalid SD-JWT format''] None)
      | issuerJWT # _ \<Rightarrow>
          (case sdJwtDecode env sdJwtToken of
             Inl message \<Rightarrow> (cache, sd_failure [''Failed to decode SD-JWT: '' @ message] None)
           | Inr decodedSDJWT \<Rightarrow>
               if decodedSDJWT = JNull
               then (cache, sd_catch ''Cannot read properties of null (reading 'jwt')'')
               else (case sd_issuer_of decodedSDJWT of
                       None \<Rightarrow> (cache, sd_failure [''Missing issuer in SD-JWT''] None)
                     | Some issuerDID \<Rightarrow>
                         if \<not> truthy_value issuerDID
                         then (cache, sd_failure [''Missing issuer in SD-JWT''] None)
                         else
                           (let didResolution = resolveDID env issuerDID (sd_trustConfig options)
                            in case (if success didResolution then document didResolution else None) of
                                 None \<Rightarrow>
                                   (cache, sd_failure
                                      [''Failed to resolve issuer DID: '' @
                                       string_or (resolution_error didResolution) ''Unknown error'']
                                      (Some issuerDID))
                               | Some didDocument \<Rightarrow>
                                   (case sd_extractPublicKeyFromDID didDocument of
                                      None \<Rightarrow>
                                        (cache, sd_failure [''No public key found in DID document'']
                                                  (Some issuerDID))
                                    | Some publicKey \<Rightarrow>
                                        (let issuerVerification = verifyJWTWithJWK env issuerJWT publicKey
                                         in if \<not> jwt_valid issuerVerification
                                            then (cache, sd_failure
                                                    [''Issuer JWT signature verification failed: '' @
                                                     string_or (jwt_error issuerVerification)
                                                       ''Unknown error'']
                                                    (Some issuerDID))
                                            else sd_finish env anchors cache clock options
                                                   decodedSDJWT issuerDID
                                                   (jwt_payload issuerVerification)))))))"

text \<open>
  The age check: \<open>verifyAgeOver\<close> and \<open>calculateAge\<close> of the same file. The threshold
  \<open>minAge\<close> is an integer.
\<close>

record AgeOverResult =
  verified :: bool
  ageOver :: "int option"
  age_error :: "string option"

text \<open>
  \<open>calculateAge\<close> on the year, month and day of today and of the birth date; \<open>None\<close> is the
  \<open>NaN\<close> of an invalid birth date.
\<close>

definition calculateAge :: "int \<times> int \<times> int \<Rightarrow> (int \<times> int \<times> int) option \<Rightarrow> int option" where
  "calculateAge today birthDate =
     (case birthDate of
        None \<Rightarrow> None
      | Some (by, bm, bd) \<Rightarrow>
          (case today of (ty, tm, td) \<Rightarrow>
             (let age = ty - by; monthDiff = tm - bm
              in if monthDiff < 0 \<or> (monthDiff = 0 \<and> td < bd) then Some (age - 1) else Some age)))"

definition starts_with :: "string \<Rightarrow> string \<Rightarrow> bool" where
  "starts_with p s = (take (length p) s = p)"

text \<open>
  The test of the loop over \<open>Object.keys(disclosedClaims)\<close>: the key names a threshold
  of at least \<open>minAge\<close> and its claim is \<open>true\<close>.
\<close>

definition higher_claim :: "json \<Rightarrow> int \<Rightarrow> string \<Rightarrow> bool" where
  "higher_claim claims minAge key =
     (starts_with ''age_over_'' key \<and>
      (case parseInt10 (drop 9 key) of None \<Rightarrow> False | Some claimAge \<Rightarrow> claimAge \<ge> minAge) \<and>
      member_of claims key = Some (JBool True))"

text \<open>The part of \<open>verifyAgeOver\<close> after the validation has succeeded.\<close>

definition age_over_claims ::
  "validator_env \<Rightarrow> int \<times> int \<times> int \<Rightarrow> json \<Rightarrow> int \<Rightarrow> AgeOverResult" where
  "age_over_claims env today claims minAge =
     (if member_of claims (''age_over_'' @ show_int minAge) = Some (JBool True)
      then \<lparr>verified = True, ageOver = Some minAge, age_error = None\<rparr>
      else (case find (higher_claim claims minAge) (object_keys claims) of
              Some key \<Rightarrow> \<lparr>verified = True, ageOver = parseInt10 (drop 9 key), age_error = None\<rparr>
            | None \<Rightarrow>
                (let birth = js_or (member_of claims ''birth_date'') (member_of claims ''birthdate'')
                 in case birth of
                      None \<Rightarrow>
                        \<lparr>verified = False, ageOver = None,
                         age_error = Some (''No age_over_'' @ show_int minAge @
                                           '' claim found in disclosed claims'')\<rparr>
                    | Some b \<Rightarrow>
                        if \<not> truthy_value b
                        then \<lparr>verified = False, ageOver = None,
                              age_error = Some (''No age_over_'' @ show_int minAge @
                                                '' claim found in disclosed claims'')\<rparr>
                        else (case calculateAge today (parse_ymd env b) of
                                None \<Rightarrow>
                                  \<lparr>verified = False, ageOver = None,
                                   age_error = Some (''Age NaN is below minimum '' @ show_int minAge)\<rparr>
                              | Some age \<Rightarrow>
                                  if age \<ge> minAge
                                  then \<lparr>verified = True, ageOver = Some age, age_error = None\<rparr>
                                  else \<lparr>verified = False, ageOver = None,
                                        age_error = Some (''Age '' @ show_int age @
                                                          '' is below minimum '' @ show_int minAge)\<rparr>))))"

definition age_over_options :: SDJWTValidationOptions where
  "age_over_options =
     \<lparr>sd_checkTrust = Some True, sd_checkExpiration = Some True, sd_trustConfig = None,
      requireMinimumDisclosures = None\<rparr>"

definition verifyAgeOver ::
  "validator_env \<Rightarrow> TrustAnchor list \<Rightarrow> trust_cache \<Rightarrow> clock_readings \<Rightarrow> int \<times> int \<times> int
   \<Rightarrow> string \<Rightarrow> int \<Rightarrow> trust_cache \<times> AgeOverResult" where
  "verifyAgeOver env anchors cache clock today sdJwtToken minAge =
     (let validated = validateSDJWT env anchors cache clock sdJwtToken age_over_options;
          validation = snd validated
      in if \<not> sd_valid validation
         then (fst validated,
               \<lparr>verified = False, ageOver = None,
                age_error = Some (''SD-JWT validation failed: '' @
                   (case sd_errors validation of
                      None \<Rightarrow> ''undefined''
                    | Some errors \<Rightarrow> js_join '', '' errors))\<rparr>)
         else (fst validated,
               age_over_claims env today
                 (case js_or (disclosedClaims validation) (Some (JObj [])) of
                    None \<Rightarrow> JObj []
                  | Some claims \<Rightarrow> claims)
                 minAge))"


section \<open>Mobile documents: verifyMSO\<close>

text \<open>
  The members of \<open>MobileSecurityObject\<close> that \<open>verifyMSO\<close> reads. \<open>parseIssuerAuth\<close> builds
  the object as \<open>{} as MobileSecurityObject\<close>, so each member may be absent (\<open>None\<close>).
  The calls of the logger are kept, in order, beside the returned value.
\<close>

record ValidityInfo =
  signed :: int
  mso_validFrom :: int
  mso_validUntil :: int

record MobileSecurityObject =
  version :: "string option"
  digestAlgorithm :: "string option"
  mso_docType :: "string option"
  validityInfo :: "ValidityInfo option"

record MSOResult =
  mso_valid :: bool
  mso_error :: "string option"

datatype log_level = LogInfo | LogWarn | LogError | LogDebug

type_synonym log_line = "log_level \<times> string"

text \<open>\<open>!s\<close> for a string member: absent and empty are falsy.\<close>

definition falsy_string :: "string option \<Rightarrow> bool" where
  "falsy_string s = (case s of None \<Rightarrow> True | Some v \<Rightarrow> v = [])"

definition verifyMSO :: "MobileSecurityObject \<Rightarrow> int \<Rightarrow> MSOResult \<times> log_line list" where
  "verifyMSO mso now =
     (let log0 = [(LogInfo, ''Verifying MSO'')]
      in if falsy_string (version mso) \<or> falsy_string (digestAlgorithm mso)
         then (\<lparr>mso_valid = False, mso_error = Some ''Invalid MSO structure''\<rparr>, log0)
         else (case validityInfo mso of
                 None \<Rightarrow>
                   (\<lparr>mso_valid = False,
                     mso_error = Some ''Cannot read properties of undefined (reading 'validFrom')''\<rparr>,
                    log0 @ [(LogError, ''MSO verification error'')])
               | Some info \<Rightarrow>
                   if mso_validFrom info > now
                   then (\<lparr>mso_valid = False, mso_error = Some ''MSO not yet valid''\<rparr>, log0)
                   else if mso_validUntil info < now
                   then (\<lparr>mso_valid = False, mso_error = Some ''MSO expired''\<rparr>, log0)
                   else (\<lparr>mso_valid = True, mso_error = None\<rparr>,
                         log0 @ [(LogWarn, ''MSO verification incomplete - signature check not yet implemented'')])))"

definition example_mso :: MobileSecurityObject where
  "example_mso =
     \<lparr>version = Some ''1.0'', digestAlgorithm = Some ''SHA-256'',
      mso_docType = Some ''org.iso.18013.5.1.mDL'',
      validityInfo = Some \<lparr>signed = 1704067200000, mso_validFrom = 1704067200000,
                            mso_validUntil = 1893369600000\<rparr>\<rparr>"

section \<open>Audit log: services/AuditLogger.ts and migration 005\<close>

datatype audit_result = AuditSuccess | AuditFailure | AuditError

record AuditEvent =
  eventType :: string
  actor :: "string option"
  resource :: "string option"
  action :: string
  result :: audit_result
  metadata :: "string option"
  timestamp :: "int option"

text \<open>
  A row of \<open>audit_logs\<close> after migration 005, which adds the nullable columns
  \<open>previous_hash\<close> and \<open>current_hash\<close> without a default.
\<close>

record AuditRow =
  audit_id :: nat
  row_event_type :: string
  row_actor :: "string option"
  row_resource :: "string option"
  row_action :: string
  row_result :: audit_result
  row_metadata :: "string option"
  row_timestamp :: int
  previous_hash :: "string option"
  current_hash :: "string option"

text \<open>The next value of the serial column \<open>id\<close>.\<close>

definition next_audit_id :: "AuditRow list \<Rightarrow> nat" where
  "next_audit_id db = Suc (foldr max (map audit_id db) 0)"

text \<open>
  \<open>INSERT INTO audit_logs (event_type, actor, resource, action, result, metadata, timestamp)
  VALUES (...)\<close>: the columns that the statement does not name are stored as \<open>NULL\<close>.
  \<open>metadata\<close> is the JSON text of the event's metadata; the flag \<open>fault\<close> says that the
  query throws, which \<open>logAuditEvent\<close> catches.
\<close>

definition logAuditEvent :: "AuditRow list \<Rightarrow> bool \<Rightarrow> int \<Rightarrow> AuditEvent \<Rightarrow> AuditRow list \<times> bool" where
  "logAuditEvent db fault now event =
     (if fault then (db, False)
      else (db @ [\<lparr>audit_id = next_audit_id db,
                    row_event_type = eventType event,
                    row_actor = actor event,
                    row_resource = resource event,
                    row_action = action event,
                    row_result = result event,
                    row_metadata = metadata event,
                    row_timestamp = (case timestamp event of Some t \<Rightarrow> t | None \<Rightarrow> now),
                    previous_hash = None,
                    current_hash = None\<rparr>], True))"

definition example_audit_event :: AuditEvent where
  "example_audit_event =
     \<lparr>eventType = ''vp_token_received'', actor = None, resource = Some ''s1'',
      action = ''verify_presentation'', result = AuditSuccess, metadata = None, timestamp = None\<rparr>"

section \<open>Session store: proofs\<close>

lemma set_completed_not_pending: "\<not> is_pending_row s (set_completed now tok sub r)"
  by (simp add: is_pending_row_def set_completed_def)

lemma map_if_unchanged: "\<forall>r \<in> set db. \<not> P r \<Longrightarrow> map (\<lambda>r. if P r then g r else r) db = db"
  by (induction db) simp_all

lemma sql_complete_no_pending_id:
  "no_pending db s \<Longrightarrow> sql_complete db now tok sub s = (db, 0)"
  by (simp add: no_pending_def sql_complete_def map_if_unchanged filter_empty_conv)

lemma sql_complete_clears_pending: "no_pending (fst (sql_complete db now tok sub s)) s"
  by (auto simp: no_pending_def sql_complete_def set_completed_not_pending)

lemma sql_complete_count_zero:
  "snd (sql_complete db now tok sub s) = 0 \<longleftrightarrow> no_pending db s"
  by (simp add: no_pending_def sql_complete_def filter_empty_conv)

lemma completeVPSession_rejects:
  "no_pending db s \<Longrightarrow> completeVPSession db fault now s tok sub = (db, False)"
  by (simp add: completeVPSession_def sql_complete_no_pending_id)

lemma completeVPSession_success_iff:
  "snd (completeVPSession db fault now s tok sub) \<longleftrightarrow> \<not> fault \<and> \<not> no_pending db s"
  by (simp add: completeVPSession_def Let_def sql_complete_count_zero)

lemma completeVPSession_after_success:
  "snd (completeVPSession db fault now s tok sub) \<Longrightarrow>
   no_pending (fst (completeVPSession db fault now s tok sub)) s"
  using sql_complete_clears_pending [of db now tok sub s]
  by (simp add: completeVPSession_def Let_def split: if_splits)

lemma complete_attempts_no_pending:
  "no_pending db s \<Longrightarrow> complete_attempts db s as = (db, replicate (length as) False)"
proof (induction as)
  case Nil
  then show ?case by simp
next
  case (Cons a as)
  obtain fault now tok sub where a: "a = (fault, now, tok, sub)" by (cases a) auto
  from Cons show ?case by (simp add: a completeVPSession_rejects)
qed

lemma successes_Cons: "successes (b # bs) = (if b then 1 else 0) + successes bs"
  by (simp add: successes_def)

lemma successes_replicate_False: "successes (replicate n False) = 0"
  by (simp add: successes_def)

lemma complete_attempts_at_most_one:
  "successes (snd (complete_attempts db s as)) \<le> 1"
proof (induction as arbitrary: db)
  case Nil
  then show ?case by (simp add: successes_def)
next
  case (Cons a as)
  obtain fault now tok sub where a: "a = (fault, now, tok, sub)" by (cases a) auto
  let ?r = "completeVPSession db fault now s tok sub"
  have unfold: "snd (complete_attempts db s (a # as)) =
      snd ?r # snd (complete_attempts (fst ?r) s as)"
    by (simp add: a Let_def)
  show ?case
  proof (cases "snd ?r")
    case True
    then have "no_pending (fst ?r) s" by (rule completeVPSession_after_success)
    then have "snd (complete_attempts (fst ?r) s as) = replicate (length as) False"
      by (simp add: complete_attempts_no_pending)
    with True unfold show ?thesis
      by (simp add: successes_Cons successes_replicate_False)
  next
    case False
    with Cons.IH [of "fst ?r"] unfold show ?thesis
      by (simp add: successes_Cons)
  qed
qed

lemma complete_attempts_exactly_one:
  assumes pend: "\<not> no_pending db s" and ne: "as \<noteq> []"
    and nofault: "\<forall>a \<in> set as. \<not> fst a"
  shows "successes (snd (complete_attempts db s as)) = 1"
proof -
  from ne obtain a rest where as: "as = a # rest" by (cases as) auto
  obtain fault now tok sub where a: "a = (fault, now, tok, sub)" by (cases a) auto
  let ?r = "completeVPSession db fault now s tok sub"
  have unfold: "snd (complete_attempts db s as) =
      snd ?r # snd (complete_attempts (fst ?r) s rest)"
    by (simp add: as a Let_def)
  from nofault as a have "\<not> fault" by simp
  with pend have ok: "snd ?r" by (simp add: completeVPSession_success_iff)
  then have "no_pending (fst ?r) s" by (rule completeVPSession_after_success)
  then have "snd (complete_attempts (fst ?r) s rest) = replicate (length rest) False"
    by (simp add: complete_attempts_no_pending)
  with ok unfold show ?thesis
    by (simp add: successes_Cons successes_replicate_False)
qed

lemma getVPSessionByState_found:
  assumes "sql_select_by_state db st = row # rest"
  shows "getVPSessionByState db False fault_update now st =
     (if status row = Pending \<and> now > expires_at row
      then (fst (updateSessionStatus db fault_update (session_id row) Expired),
            Some (row\<lparr>status := Expired\<rparr>))
      else (db, Some row))"
  using assms by (simp add: getVPSessionByState_def)

lemma updateSessionStatus_store:
  "fst (updateSessionStatus db fault sessionId st) =
     (if fault then db
      else map (\<lambda>r. if session_id r = sessionId then r\<lparr>status := st\<rparr> else r) db)"
  by (simp add: updateSessionStatus_def sql_update_status_def Let_def)

lemma select_head_in_table:
  assumes "sql_select_by_state db st = row # rest"
  shows "row \<in> set db \<and> state row = st"
proof -
  have "row \<in> set (filter (\<lambda>r. state r = st) db)"
    using assms by (simp add: sql_select_by_state_def)
  then show ?thesis by simp
qed

section \<open>Session store: the claims\<close>

text \<open>
  C1. \<open>completeVPSession\<close> answers \<open>true\<close> only when a row with that identifier is stored with
  status \<open>pending\<close>, and then that row (and no other) becomes \<open>completed\<close> with the token and
  the submission. Against a session that is not \<open>pending\<close> it answers \<open>false\<close> and leaves the
  table as it was. The statement is one conditional update, so in every schedule of
  completion attempts on one session at most one answers \<open>true\<close>; when the session is
  pending and no query throws, exactly one does.
\<close>

theorem completeVPSession_pending_guard:
  "(snd (completeVPSession db fault now s tok sub) \<longrightarrow>
      (\<exists>r \<in> set db. session_id r = s \<and> status r = Pending) \<and>
      fst (completeVPSession db fault now s tok sub) =
        map (\<lambda>r. if session_id r = s \<and> status r = Pending
                  then r\<lparr>vp_token := Some tok, presentation_submission := Some sub,
                         status := Completed, completed_at := Some now\<rparr>
                  else r) db) \<and>
   ((\<forall>r \<in> set db. session_id r = s \<longrightarrow> status r \<noteq> Pending) \<longrightarrow>
      completeVPSession db fault now s tok sub = (db, False)) \<and>
   successes (snd (complete_attempts db s as)) \<le> 1 \<and>
   ((\<exists>r \<in> set db. session_id r = s \<and> status r = Pending) \<and> as \<noteq> [] \<and>
    (\<forall>a \<in> set as. \<not> fst a) \<longrightarrow>
      successes (snd (complete_attempts db s as)) = 1)"
proof -
  have np: "no_pending db s \<longleftrightarrow> (\<forall>r \<in> set db. session_id r = s \<longrightarrow> status r \<noteq> Pending)"
    by (simp add: no_pending_def is_pending_row_def)
  have store: "fst (sql_complete db now tok sub s) =
        map (\<lambda>r. if session_id r = s \<and> status r = Pending
                  then r\<lparr>vp_token := Some tok, presentation_submission := Some sub,
                         status := Completed, completed_at := Some now\<rparr>
                  else r) db"
    by (simp add: sql_complete_def is_pending_row_def set_completed_def)
  have one: "snd (completeVPSession db fault now s tok sub) \<longrightarrow>
      (\<exists>r \<in> set db. session_id r = s \<and> status r = Pending) \<and>
      fst (completeVPSession db fault now s tok sub) = fst (sql_complete db now tok sub s)"
  proof
    assume ok: "snd (completeVPSession db fault now s tok sub)"
    then have "\<not> fault" and "\<not> no_pending db s"
      by (simp_all add: completeVPSession_success_iff)
    then show "(\<exists>r \<in> set db. session_id r = s \<and> status r = Pending) \<and>
      fst (completeVPSession db fault now s tok sub) = fst (sql_complete db now tok sub s)"
      using np by (simp add: completeVPSession_def Let_def)
  qed
  have two: "(\<forall>r \<in> set db. session_id r = s \<longrightarrow> status r \<noteq> Pending) \<longrightarrow>
      completeVPSession db fault now s tok sub = (db, False)"
    using np completeVPSession_rejects [of db s fault now tok sub] by simp
  have three: "successes (snd (complete_attempts db s as)) \<le> 1"
    by (rule complete_attempts_at_most_one)
  have four: "(\<exists>r \<in> set db. session_id r = s \<and> status r = Pending) \<and> as \<noteq> [] \<and>
    (\<forall>a \<in> set as. \<not> fst a) \<longrightarrow> successes (snd (complete_attempts db s as)) = 1"
  proof
    assume h: "(\<exists>r \<in> set db. session_id r = s \<and> status r = Pending) \<and> as \<noteq> [] \<and>
      (\<forall>a \<in> set as. \<not> fst a)"
    then have "\<not> no_pending db s" using np by blast
    with h show "successes (snd (complete_attempts db s as)) = 1"
      by (simp add: complete_attempts_exactly_one)
  qed
  from one store two three four show ?thesis by simp
qed

theorem completeVPSession_pending_guard_witness:
  "snd (completeVPSession [example_session] False 5 ''s1'' ''tok'' ''sub'') \<and>
   map status (fst (completeVPSession [example_session] False 5 ''s1'' ''tok'' ''sub'')) = [Completed] \<and>
   completeVPSession [example_session\<lparr>status := Failed\<rparr>] False 5 ''s1'' ''tok'' ''sub'' =
     ([example_session\<lparr>status := Failed\<rparr>], False) \<and>
   successes (snd (complete_attempts [example_session] ''s1''
     [(False, 5, ''tok'', ''sub''), (False, 6, ''tok2'', ''sub''), (False, 7, ''tok3'', ''sub'')])) = 1"
proof -
  have ok: "snd (completeVPSession [example_session] False 5 ''s1'' ''tok'' ''sub'')"
    by (simp add: completeVPSession_def sql_complete_def is_pending_row_def example_session_def)
  have a: "map status (fst (completeVPSession [example_session] False 5 ''s1'' ''tok'' ''sub'')) = [Completed]"
    using ok completeVPSession_pending_guard
      [of "[example_session]" False 5 "''s1''" "''tok''" "''sub''" "[]"]
    by (simp add: example_session_def)
  have b: "completeVPSession [example_session\<lparr>status := Failed\<rparr>] False 5 ''s1'' ''tok'' ''sub'' =
     ([example_session\<lparr>status := Failed\<rparr>], False)"
    using completeVPSession_pending_guard
      [of "[example_session\<lparr>status := Failed\<rparr>]" False 5 "''s1''" "''tok''" "''sub''" "[]"]
    by simp
  have c: "successes (snd (complete_attempts [example_session] ''s1''
     [(False, 5, ''tok'', ''sub''), (False, 6, ''tok2'', ''sub''), (False, 7, ''tok3'', ''sub'')])) = 1"
    using completeVPSession_pending_guard
      [of "[example_session]" False 5 "''s1''" "''tok''" "''sub''"
          "[(False, 5, ''tok'', ''sub''), (False, 6, ''tok2'', ''sub''), (False, 7, ''tok3'', ''sub'')]"]
    by (simp add: example_session_def)
  from ok a b c show ?thesis by simp
qed

text \<open>
  C6. When the lookup by \<open>state\<close> finds a row whose stored status is \<open>pending\<close> and the clock
  is past its \<open>expires_at\<close>, the session handed to the caller has status \<open>expired\<close> and is
  otherwise the stored row; the read also rewrites the stored status of that session to
  \<open>expired\<close> (when the update query itself does not throw; its failure is swallowed).
\<close>

theorem getVPSessionByState_expires_on_read:
  assumes "sql_select_by_state db st = row # rest"
    and "status row = Pending" and "now > expires_at row"
  shows "snd (getVPSessionByState db False fault_update now st) = Some (row\<lparr>status := Expired\<rparr>) \<and>
    (\<not> fault_update \<longrightarrow>
       fst (getVPSessionByState db False fault_update now st) =
         map (\<lambda>r. if session_id r = session_id row then r\<lparr>status := Expired\<rparr> else r) db \<and>
       row\<lparr>status := Expired\<rparr> \<in> set (fst (getVPSessionByState db False fault_update now st)) \<and>
       row \<notin> set (fst (getVPSessionByState db False fault_update now st)))"
proof -
  let ?upd = "\<lambda>r. if session_id r = session_id row then r\<lparr>status := Expired\<rparr> else r"
  have res: "getVPSessionByState db False fault_update now st =
      (fst (updateSessionStatus db fault_update (session_id row) Expired),
       Some (row\<lparr>status := Expired\<rparr>))"
    using assms by (simp add: getVPSessionByState_found)
  define db' where "db' = map ?upd db"
  have store: "fst (updateSessionStatus db fault_update (session_id row) Expired) =
      (if fault_update then db else db')"
    by (simp add: updateSessionStatus_store db'_def)
  have mem: "row \<in> set db" using assms(1) select_head_in_table by blast
  then have "?upd row \<in> ?upd ` set db" by (rule imageI)
  then have in_new: "row\<lparr>status := Expired\<rparr> \<in> set db'"
    unfolding db'_def set_map by simp
  have "status r' \<noteq> Pending \<or> session_id r' \<noteq> session_id row" if "r' \<in> set db'" for r'
  proof -
    from that obtain r where "r \<in> set db" and r': "r' = ?upd r"
      unfolding db'_def set_map by blast
    show ?thesis
    proof (cases "session_id r = session_id row")
      case True
      with r' show ?thesis by simp
    next
      case False
      with r' show ?thesis by simp
    qed
  qed
  with assms(2) have not_old: "row \<notin> set db'" by blast
  have "fst (getVPSessionByState db False fault_update now st) = (if fault_update then db else db')"
    and "snd (getVPSessionByState db False fault_update now st) = Some (row\<lparr>status := Expired\<rparr>)"
    using res store by simp_all
  with in_new not_old show ?thesis
    unfolding db'_def [symmetric] by (cases fault_update) simp_all
qed

theorem getVPSessionByState_expires_on_read_witness:
  "getVPSessionByState [example_session] False False 900001 ''st1'' =
     ([example_session\<lparr>status := Expired\<rparr>], Some (example_session\<lparr>status := Expired\<rparr>))"
proof -
  have sel: "sql_select_by_state [example_session] ''st1'' = example_session # []"
    by (simp add: sql_select_by_state_def example_session_def)
  have st: "status example_session = Pending" by (simp add: example_session_def)
  have ex: "900001 > expires_at example_session" by (simp add: example_session_def)
  from getVPSessionByState_expires_on_read [OF sel st ex, of False]
  show ?thesis by (simp add: prod_eq_iff)
qed

section \<open>Presentation matcher: proofs and claims\<close>

lemma descriptor_step_split:
  "descriptor_step submission credentials acc d =
     (fst acc @ descriptor_errors submission credentials d,
      snd acc @ descriptor_matches submission credentials d)"
  by (simp add: descriptor_step_def descriptor_errors_def descriptor_matches_def Let_def
      split: option.splits)

lemma foldl_descriptor_step:
  "foldl (descriptor_step submission credentials) acc ds =
     (fst acc @ concat (map (descriptor_errors submission credentials) ds),
      snd acc @ concat (map (descriptor_matches submission credentials) ds))"
proof (induction ds arbitrary: acc)
  case Nil
  then show ?case by simp
next
  case (Cons d ds)
  show ?case
    by (simp add: Cons.IH descriptor_step_split [of submission credentials acc d])
qed

lemma credential_at_minus_one: "\<not> credential_at credentials (- 1)"
  by (simp add: credential_at_def)

lemma descriptor_matches_eq:
  "descriptor_matches submission (vp_credentials vp) d =
     (if resolves vp submission d then [descriptor_id d] else [])"
proof (cases "find_mapping submission d")
  case None
  then show ?thesis
    by (simp add: descriptor_matches_def descriptor_step_def resolves_def)
next
  case (Some m)
  show ?thesis
  proof (cases "extractIndexFromPath (entry_path m) = - 1")
    case True
    with Some show ?thesis
      by (simp add: descriptor_matches_def descriptor_step_def resolves_def credential_at_minus_one)
  next
    case False
    with Some show ?thesis
      by (simp add: descriptor_matches_def descriptor_step_def resolves_def Let_def)
  qed
qed

lemma descriptor_errors_empty_iff:
  "descriptor_errors submission (vp_credentials vp) d = [] \<longleftrightarrow>
     (if has_mapping submission d then resolves vp submission d else fields_some_optional d)"
proof (cases "find_mapping submission d")
  case None
  then show ?thesis
    by (simp add: descriptor_errors_def descriptor_step_def has_mapping_def)
next
  case (Some m)
  show ?thesis
  proof (cases "extractIndexFromPath (entry_path m) = - 1")
    case True
    with Some show ?thesis
      by (simp add: descriptor_errors_def descriptor_step_def resolves_def has_mapping_def
          credential_at_minus_one)
  next
    case False
    with Some show ?thesis
      by (simp add: descriptor_errors_def descriptor_step_def resolves_def has_mapping_def Let_def)
  qed
qed

lemma concat_matches:
  "concat (map (descriptor_matches submission (vp_credentials vp)) ds) =
     map descriptor_id (filter (resolves vp submission) ds)"
  by (induction ds) (simp_all add: descriptor_matches_eq)


lemma resolves_has_mapping: "resolves vp submission d \<Longrightarrow> has_mapping submission d"
  by (simp add: resolves_def has_mapping_def split: option.splits)


lemma evaluatePresentationSubmission_unfold:
  assumes "vp_presentation_submission vp = Some submission"
    and "definition_id submission = pd_id pd"
  shows "evaluatePresentationSubmission vp pd =
     (let errs0 = concat (map (descriptor_errors submission (vp_credentials vp)) (input_descriptors pd));
          matched = map descriptor_id (filter (resolves vp submission) (input_descriptors pd));
          errors = (if \<not> list_all (\<lambda>d. descriptor_id d \<in> set matched) (requiredDescriptors pd)
                    then errs0 @ [''Not all required descriptors are satisfied'']
                    else errs0)
      in if errors \<noteq> []
         then \<lparr>eval_valid = False, eval_errors = Some errors, matchedDescriptors = Some matched\<rparr>
         else \<lparr>eval_valid = True, eval_errors = None, matchedDescriptors = Some matched\<rparr>)"
proof -
  have loop: "foldl (descriptor_step submission (vp_credentials vp)) ([], []) (input_descriptors pd) =
      (concat (map (descriptor_errors submission (vp_credentials vp)) (input_descriptors pd)),
       map descriptor_id (filter (resolves vp submission) (input_descriptors pd)))"
    unfolding foldl_descriptor_step concat_matches by simp
  show ?thesis
    unfolding evaluatePresentationSubmission_def assms(1) option.case loop Let_def fst_conv snd_conv
    using assms(2) by simp
qed




text \<open>
  C2, as amended. When the submission names the definition, every descriptor that has an entry
  in the descriptor map is resolved by it to an existing credential, and every descriptor
  without an entry has at least one field and all its fields marked optional, the result is
  valid, carries no errors, and \<open>matchedDescriptors\<close> lists, in the definition's order, the
  descriptors that have an entry; these include every non-optional descriptor.
\<close>

theorem evaluatePresentationSubmission_accepts:
  assumes sub: "vp_presentation_submission vp = Some submission"
    and same: "definition_id submission = pd_id pd"
    and each: "\<forall>d \<in> set (input_descriptors pd).
        if has_mapping submission d then resolves vp submission d
        else fields_some_optional d \<and> fields_every_optional d"
  shows "evaluatePresentationSubmission vp pd =
      \<lparr>eval_valid = True, eval_errors = None,
       matchedDescriptors =
         Some (map descriptor_id (filter (has_mapping submission) (input_descriptors pd)))\<rparr> \<and>
    set (map descriptor_id (requiredDescriptors pd)) \<subseteq>
      set (map descriptor_id (filter (has_mapping submission) (input_descriptors pd)))"
proof -
  let ?ds = "input_descriptors pd"
  let ?errs0 = "concat (map (descriptor_errors submission (vp_credentials vp)) ?ds)"
  let ?matched = "map descriptor_id (filter (resolves vp submission) ?ds)"
  have no_err: "descriptor_errors submission (vp_credentials vp) d = []" if "d \<in> set ?ds" for d
    using each that by (simp add: descriptor_errors_empty_iff split: if_splits)
  then have errs0: "?errs0 = []" by simp
  have same_filter: "filter (resolves vp submission) ?ds = filter (has_mapping submission) ?ds"
  proof (rule filter_cong [OF refl])
    fix d assume "d \<in> set ?ds"
    with each show "resolves vp submission d = has_mapping submission d"
      using resolves_has_mapping [of vp submission d] by (auto split: if_splits)
  qed
  have req: "descriptor_id d \<in> set ?matched" if "d \<in> set (requiredDescriptors pd)" for d
  proof -
    from that have mem: "d \<in> set ?ds" and "\<not> fields_every_optional d"
      by (simp_all add: requiredDescriptors_def)
    with each have "resolves vp submission d" by (auto split: if_splits)
    with mem show ?thesis by auto
  qed
  then have all: "list_all (\<lambda>d. descriptor_id d \<in> set ?matched) (requiredDescriptors pd)"
    unfolding list_all_iff by blast
  have res: "evaluatePresentationSubmission vp pd =
      \<lparr>eval_valid = True, eval_errors = None, matchedDescriptors = Some ?matched\<rparr>"
    using all errs0 by (simp add: evaluatePresentationSubmission_unfold [OF sub same] Let_def)
  have incl: "set (map descriptor_id (requiredDescriptors pd)) \<subseteq> set ?matched"
    using req by auto
  from res incl show ?thesis unfolding same_filter by simp
qed

theorem evaluatePresentationSubmission_accepts_witness:
  "evaluatePresentationSubmission (example_vp [entry_required]) example_pd =
     \<lparr>eval_valid = True, eval_errors = None, matchedDescriptors = Some [''id_credential'']\<rparr>"
proof -
  let ?sub = "example_submission [entry_required]"
  let ?vp = "example_vp [entry_required]"
  have sub: "vp_presentation_submission ?vp = Some ?sub"
    by (simp add: example_vp_def)
  have same: "definition_id ?sub = pd_id example_pd"
    by (simp add: example_submission_def example_pd_def)
  have m1: "has_mapping ?sub required_descriptor"
    by (simp add: has_mapping_def find_mapping_def example_submission_def entry_required_def
        required_descriptor_def)
  have m2: "\<not> has_mapping ?sub optional_descriptor"
    by (simp add: has_mapping_def find_mapping_def example_submission_def entry_required_def
        optional_descriptor_def)
  have r1: "resolves ?vp ?sub required_descriptor"
    by code_simp
  have o2: "fields_some_optional optional_descriptor \<and> fields_every_optional optional_descriptor"
    by (simp add: fields_some_optional_def fields_every_optional_def optional_descriptor_def)
  have each: "\<forall>d \<in> set (input_descriptors example_pd).
        if has_mapping ?sub d then resolves ?vp ?sub d
        else fields_some_optional d \<and> fields_every_optional d"
    using m1 m2 r1 o2 by (simp add: example_pd_def)
  have ids: "map descriptor_id (filter (has_mapping ?sub) (input_descriptors example_pd)) =
      [''id_credential'']"
    using m1 m2 by (simp add: example_pd_def required_descriptor_def)
  from evaluatePresentationSubmission_accepts [OF sub same each] ids
  show ?thesis by simp
qed

text \<open>
  C2, as stated, fails. Here the one non-optional descriptor is resolved to the credential at
  index 0, and the wholly optional descriptor has an entry that points at index 5 of a
  one-element array: the result is not valid.
\<close>

theorem evaluatePresentationSubmission_counterexample:
  "vp_presentation_submission (example_vp [entry_required, entry_optional_dangling]) =
     Some (example_submission [entry_required, entry_optional_dangling]) \<and>
   definition_id (example_submission [entry_required, entry_optional_dangling]) = pd_id example_pd \<and>
   map descriptor_id (requiredDescriptors example_pd) = [''id_credential''] \<and>
   list_all (resolves (example_vp [entry_required, entry_optional_dangling])
              (example_submission [entry_required, entry_optional_dangling]))
     (requiredDescriptors example_pd) \<and>
   evaluatePresentationSubmission (example_vp [entry_required, entry_optional_dangling]) example_pd =
     \<lparr>eval_valid = False,
      eval_errors =
        Some [''Credential not found at path $.verifiableCredential[5] for descriptor loyalty_card''],
      matchedDescriptors = Some [''id_credential'']\<rparr>"
  by code_simp

section \<open>Trust resolver: proofs and claims\<close>

lemma find_Some_mem: "find P xs = Some a \<Longrightarrow> a \<in> set xs \<and> P a"
  by (induction xs) (auto split: if_splits)

lemma isTrustedIssuer_cached:
  assumes "cache d = Some (a, ts)" and "now - ts < cache_ttl_ms (effective_config config)"
  shows "isTrustedIssuer anchors cache config now today d =
     (cache, \<lparr>trusted = anchor_is_valid a today, anchor = Some a,
              reason = Some (if anchor_is_valid a today then ''Trusted anchor (cached)''
                             else ''Anchor expired or revoked'')\<rparr>)"
  using assms by (simp add: isTrustedIssuer_def Let_def)

lemma isTrustedIssuer_lookup:
  assumes "cache d = None \<or> (\<exists>a ts. cache d = Some (a, ts) \<and> \<not> now - ts < cache_ttl_ms (effective_config config))"
  shows "isTrustedIssuer anchors cache config now today d =
     (case (if enableMockTrustAnchors (effective_config config)
            then find (\<lambda>a. did a = d) anchors else None) of
        Some mockAnchor \<Rightarrow>
          (cache(d \<mapsto> (mockAnchor, now)),
           \<lparr>trusted = anchor_is_valid mockAnchor today, anchor = Some mockAnchor,
            reason = Some (if anchor_is_valid mockAnchor today then ''Trusted anchor (mock)''
                           else ''Anchor expired or revoked'')\<rparr>)
      | None \<Rightarrow> (cache, \<lparr>trusted = False, anchor = None, reason = Some ''Not in trust anchor list''\<rparr>))"
  using assms by (auto simp: isTrustedIssuer_def Let_def split: option.splits)

lemma distinct_map_unique:
  assumes "distinct (map f xs)" and "a \<in> set xs" and "b \<in> set xs" and "f a = f b"
  shows "a = b"
  using assms by (meson distinct_map inj_onD)

lemma anchor_is_valid_iff:
  "anchor_is_valid a today \<longleftrightarrow>
     anchor_status a = Active \<and> (validUntil a = None \<or> (\<exists>t. validUntil a = Some t \<and> today < t))"
  by (cases "validUntil a") (simp_all add: anchor_is_valid_def)

lemma isTrustedIssuer_cases:
  obtains (cached) a ts where "cache d = Some (a, ts)"
      and "now - ts < cache_ttl_ms (effective_config config)"
  | (lookup) "cache d = None \<or>
      (\<exists>a ts. cache d = Some (a, ts) \<and> \<not> now - ts < cache_ttl_ms (effective_config config))"
  by (cases "cache d") auto

lemma isTrustedIssuer_answer:
  assumes dist: "distinct (map did anchors)"
    and coh: "cache_coherent anchors cache"
  shows "trusted (snd (isTrustedIssuer anchors cache config now today d)) \<longleftrightarrow>
     (\<exists>a \<in> set anchors. did a = d \<and> anchor_is_valid a today) \<and>
     (enableMockTrustAnchors (effective_config config) \<or>
      (\<exists>a ts. cache d = Some (a, ts) \<and> now - ts < cache_ttl_ms (effective_config config)))"
proof (cases rule: isTrustedIssuer_cases [of cache d now config])
  case (cached a ts)
  from coh cached(1) have mem: "a \<in> set anchors" and id: "did a = d"
    by (auto simp: cache_coherent_def)
  have res: "trusted (snd (isTrustedIssuer anchors cache config now today d)) = anchor_is_valid a today"
    by (simp add: isTrustedIssuer_cached [where cache=cache and d=d, OF cached])
  have fresh: "\<exists>a ts. cache d = Some (a, ts) \<and> now - ts < cache_ttl_ms (effective_config config)"
    using cached by blast
  have "anchor_is_valid a today \<longleftrightarrow> (\<exists>b \<in> set anchors. did b = d \<and> anchor_is_valid b today)"
  proof
    assume "anchor_is_valid a today"
    with mem id show "\<exists>b \<in> set anchors. did b = d \<and> anchor_is_valid b today" by blast
  next
    assume "\<exists>b \<in> set anchors. did b = d \<and> anchor_is_valid b today"
    then obtain b where b: "b \<in> set anchors" "did b = d" "anchor_is_valid b today" by blast
    from dist b(1) mem b(2) id have "b = a" by (intro distinct_map_unique [of did]) simp_all
    with b(3) show "anchor_is_valid a today" by simp
  qed
  with res fresh show ?thesis by blast
next
  case lookup
  note eq = isTrustedIssuer_lookup [where cache=cache and d=d, OF lookup, of anchors today]
  from lookup have stale: "\<not> (\<exists>a ts. cache d = Some (a, ts) \<and>
      now - ts < cache_ttl_ms (effective_config config))"
    by auto
  show ?thesis
  proof (cases "enableMockTrustAnchors (effective_config config)")
    case False
    with eq have "\<not> trusted (snd (isTrustedIssuer anchors cache config now today d))" by simp
    with False stale show ?thesis by blast
  next
    case True
    show ?thesis
    proof (cases "find (\<lambda>a. did a = d) anchors")
      case None
      then have "\<forall>a \<in> set anchors. did a \<noteq> d" by (simp add: find_None_iff)
      moreover from None True eq
      have "\<not> trusted (snd (isTrustedIssuer anchors cache config now today d))" by simp
      ultimately show ?thesis by blast
    next
      case (Some m)
      then have mem: "m \<in> set anchors" and id: "did m = d"
        using find_Some_mem [of "\<lambda>a. did a = d"] by blast+
      have res: "trusted (snd (isTrustedIssuer anchors cache config now today d)) =
          anchor_is_valid m today"
        using Some True eq by simp
      have "anchor_is_valid m today \<longleftrightarrow> (\<exists>b \<in> set anchors. did b = d \<and> anchor_is_valid b today)"
      proof
        assume "anchor_is_valid m today"
        with mem id show "\<exists>b \<in> set anchors. did b = d \<and> anchor_is_valid b today" by blast
      next
        assume "\<exists>b \<in> set anchors. did b = d \<and> anchor_is_valid b today"
        then obtain b where b: "b \<in> set anchors" "did b = d" "anchor_is_valid b today" by blast
        from dist b(1) mem b(2) id have "b = m" by (intro distinct_map_unique [of did]) simp_all
        with b(3) show "anchor_is_valid m today" by simp
      qed
      with res True show ?thesis by blast
    qed
  qed
qed

lemma isTrustedIssuer_reason:
  "reason (snd (isTrustedIssuer anchors cache config now today d)) \<noteq> None"
proof (cases rule: isTrustedIssuer_cases [of cache d now config])
  case (cached a ts)
  show ?thesis by (simp add: isTrustedIssuer_cached [where cache=cache and d=d, OF cached])
next
  case lookup
  show ?thesis
    by (simp add: isTrustedIssuer_lookup [where cache=cache and d=d, OF lookup] split: option.splits)
qed

text \<open>The invariant holds of the empty cache and is kept by a call with any configuration.\<close>

lemma cache_coherent_empty: "cache_coherent anchors Map.empty"
  by (simp add: cache_coherent_def)

lemma isTrustedIssuer_keeps_coherent:
  assumes coh: "cache_coherent anchors cache"
  shows "cache_coherent anchors (fst (isTrustedIssuer anchors cache config now today d))"
proof (cases rule: isTrustedIssuer_cases [of cache d now config])
  case (cached a ts)
  with coh show ?thesis by (simp add: isTrustedIssuer_cached [where cache=cache and d=d, OF cached])
next
  case lookup
  note eq = isTrustedIssuer_lookup [where cache=cache and d=d, OF lookup, of anchors today]
  show ?thesis
  proof (cases "if enableMockTrustAnchors (effective_config config)
                then find (\<lambda>a. did a = d) anchors else None")
    case None
    with eq coh show ?thesis by simp
  next
    case (Some m)
    then have "find (\<lambda>a. did a = d) anchors = Some m" by (simp split: if_splits)
    then have mem: "m \<in> set anchors" and id: "did m = d"
      using find_Some_mem [of "\<lambda>a. did a = d"] by blast+
    have "fst (isTrustedIssuer anchors cache config now today d) = cache(d \<mapsto> (m, now))"
      using Some eq by simp
    with coh mem id show ?thesis
      by (auto simp: cache_coherent_def)
  qed
qed

lemma trust_cache_run_coherent:
  "cache_coherent anchors cache \<Longrightarrow> cache_coherent anchors (trust_cache_run anchors cache calls)"
proof (induction calls arbitrary: cache)
  case Nil
  then show ?case by simp
next
  case (Cons c calls)
  obtain config now today d where c: "c = (config, now, today, d)" by (cases c) auto
  from Cons.prems have "cache_coherent anchors (fst (isTrustedIssuer anchors cache config now today d))"
    by (rule isTrustedIssuer_keeps_coherent)
  then show ?case by (simp add: c Cons.IH)
qed

lemma trust_cache_after_coherent: "cache_coherent anchors (trust_cache_after anchors calls)"
  unfolding trust_cache_after_def
  by (rule trust_cache_run_coherent [OF cache_coherent_empty])

lemma mock_distinct: "distinct (map did MOCK_TRUST_ANCHORS)"
  by (simp add: MOCK_TRUST_ANCHORS_def)

text \<open>
  C5, as amended. In every state of the cache that a history of calls of \<open>isTrustedIssuer\<close>
  (with whatever configurations) can leave, and for every configuration and identifier,
  \<open>isTrustedIssuer\<close> answers \<open>trusted: true\<close> exactly when an anchor of the anchor list has that
  identifier, status \<open>active\<close> and \<open>validUntil\<close> absent or strictly after the clock reading,
  and the lookup reaches it: the configuration enables the mock anchors, or the cache holds an
  entry for the identifier that is within its TTL. Every answer carries a reason; an
  identifier that is not in the anchor list is not trusted; the answer of the \<open>catch\<close> clause is
  \<open>trusted: false\<close> with the reason \<open>Error: ...\<close>.
\<close>

theorem isTrustedIssuer_trusted_iff:
  "(trusted (snd (isTrustedIssuer MOCK_TRUST_ANCHORS (trust_cache_after MOCK_TRUST_ANCHORS calls)
               config now today d)) \<longleftrightarrow>
      (\<exists>a \<in> set MOCK_TRUST_ANCHORS.
         did a = d \<and> anchor_status a = Active \<and>
         (validUntil a = None \<or> (\<exists>t. validUntil a = Some t \<and> today < t))) \<and>
      (enableMockTrustAnchors (effective_config config) \<or>
       (\<exists>a ts. trust_cache_after MOCK_TRUST_ANCHORS calls d = Some (a, ts) \<and>
          now - ts < cache_ttl_ms (effective_config config)))) \<and>
   reason (snd (isTrustedIssuer MOCK_TRUST_ANCHORS (trust_cache_after MOCK_TRUST_ANCHORS calls)
             config now today d)) \<noteq> None \<and>
   ((\<forall>a \<in> set MOCK_TRUST_ANCHORS. did a \<noteq> d) \<longrightarrow>
      \<not> trusted (snd (isTrustedIssuer MOCK_TRUST_ANCHORS (trust_cache_after MOCK_TRUST_ANCHORS calls)
                   config now today d))) \<and>
   \<not> trusted (isTrustedIssuer_catch msg) \<and>
   reason (isTrustedIssuer_catch msg) = Some (''Error: '' @ msg)"
proof -
  let ?cache = "trust_cache_after MOCK_TRUST_ANCHORS calls"
  let ?r = "snd (isTrustedIssuer MOCK_TRUST_ANCHORS ?cache config now today d)"
  have coh: "cache_coherent MOCK_TRUST_ANCHORS ?cache"
    by (rule trust_cache_after_coherent)
  have iff: "trusted ?r \<longleftrightarrow>
      (\<exists>a \<in> set MOCK_TRUST_ANCHORS.
         did a = d \<and> anchor_status a = Active \<and>
         (validUntil a = None \<or> (\<exists>t. validUntil a = Some t \<and> today < t))) \<and>
      (enableMockTrustAnchors (effective_config config) \<or>
       (\<exists>a ts. ?cache d = Some (a, ts) \<and> now - ts < cache_ttl_ms (effective_config config)))"
    unfolding isTrustedIssuer_answer [OF mock_distinct coh] anchor_is_valid_iff ..
  then have unknown: "(\<forall>a \<in> set MOCK_TRUST_ANCHORS. did a \<noteq> d) \<longrightarrow> \<not> trusted ?r"
    by blast
  have handler: "\<not> trusted (isTrustedIssuer_catch msg) \<and>
      reason (isTrustedIssuer_catch msg) = Some (''Error: '' @ msg)"
    by (simp add: isTrustedIssuer_catch_def)
  from iff unknown handler isTrustedIssuer_reason [of MOCK_TRUST_ANCHORS ?cache config now today d]
  show ?thesis by blast
qed

text \<open>
  An instance in a state that mixes configurations: one call with the default configuration
  stores the EBSI anchor; a later call inside the TTL with the mock anchors switched off is
  answered from the cache, as the theorem says. An identifier outside the list is not trusted.
\<close>

theorem isTrustedIssuer_trusted_iff_witness:
  "trusted (snd (isTrustedIssuer MOCK_TRUST_ANCHORS
      (trust_cache_after MOCK_TRUST_ANCHORS
         [(None, 1793577600000, 1793577600001, ''did:ebsi:znxntxQrN3Xqe7RGTd3KQJ4'')])
      (Some mock_disabled_config) 1793577660000 1793577660001
      ''did:ebsi:znxntxQrN3Xqe7RGTd3KQJ4'')) \<and>
   \<not> trusted (snd (isTrustedIssuer MOCK_TRUST_ANCHORS
      (trust_cache_after MOCK_TRUST_ANCHORS
         [(None, 1793577600000, 1793577600001, ''did:ebsi:znxntxQrN3Xqe7RGTd3KQJ4'')])
      None 1793577660000 1793577660001 ''did:web:unknown.example''))"
proof -
  let ?ebsi = "''did:ebsi:znxntxQrN3Xqe7RGTd3KQJ4''"
  let ?calls = "[(None, 1793577600000, 1793577600001, ?ebsi)]"
  have entry: "trust_cache_after MOCK_TRUST_ANCHORS ?calls ?ebsi =
      Some (MOCK_TRUST_ANCHORS ! 0, 1793577600000)"
    by (simp add: trust_cache_after_def isTrustedIssuer_def Let_def effective_config_def
        default_trust_config_def MOCK_TRUST_ANCHORS_def)
  have ttl: "(1793577660000::int) - 1793577600000 < cache_ttl_ms (effective_config (Some mock_disabled_config))"
    by (simp add: cache_ttl_ms_def effective_config_def mock_disabled_config_def DEFAULT_CACHE_TTL_def)
  have fresh: "\<exists>a ts. trust_cache_after MOCK_TRUST_ANCHORS ?calls ?ebsi = Some (a, ts) \<and>
      1793577660000 - ts < cache_ttl_ms (effective_config (Some mock_disabled_config))"
    using entry ttl by blast
  have yes: "\<exists>a \<in> set MOCK_TRUST_ANCHORS. did a = ?ebsi \<and> anchor_status a = Active \<and>
      (validUntil a = None \<or> (\<exists>t. validUntil a = Some t \<and> 1793577660001 < t))"
    by (simp add: MOCK_TRUST_ANCHORS_def)
  have no: "\<forall>a \<in> set MOCK_TRUST_ANCHORS. did a \<noteq> ''did:web:unknown.example''"
    by (simp add: MOCK_TRUST_ANCHORS_def)
  from isTrustedIssuer_trusted_iff [of ?calls "Some mock_disabled_config" 1793577660000
      1793577660001 ?ebsi "''x''"] yes fresh
  have a: "trusted (snd (isTrustedIssuer MOCK_TRUST_ANCHORS
      (trust_cache_after MOCK_TRUST_ANCHORS ?calls)
      (Some mock_disabled_config) 1793577660000 1793577660001 ?ebsi))"
    by blast
  from isTrustedIssuer_trusted_iff [of ?calls None 1793577660000 1793577660001
      "''did:web:unknown.example''" "''x''"] no
  have b: "\<not> trusted (snd (isTrustedIssuer MOCK_TRUST_ANCHORS
      (trust_cache_after MOCK_TRUST_ANCHORS ?calls)
      None 1793577660000 1793577660001 ''did:web:unknown.example''))"
    by blast
  from a b show ?thesis by simp
qed

text \<open>
  C5, as stated, fails. Before any call, with the mock anchors switched off by the
  configuration, the identifier of the second anchor of the list, which is \<open>active\<close> and has
  no \<open>validUntil\<close>, is answered \<open>trusted: false\<close>.
\<close>

theorem isTrustedIssuer_counterexample:
  "MOCK_TRUST_ANCHORS ! 1 \<in> set MOCK_TRUST_ANCHORS \<and>
   did (MOCK_TRUST_ANCHORS ! 1) = ''did:web:identity.foundation'' \<and>
   anchor_status (MOCK_TRUST_ANCHORS ! 1) = Active \<and>
   validUntil (MOCK_TRUST_ANCHORS ! 1) = None \<and>
   snd (isTrustedIssuer MOCK_TRUST_ANCHORS (trust_cache_after MOCK_TRUST_ANCHORS [])
          (Some mock_disabled_config) 1793577600000 1793577600001 ''did:web:identity.foundation'') =
     \<lparr>trusted = False, anchor = None, reason = Some ''Not in trust anchor list''\<rparr>"
  by (simp add: MOCK_TRUST_ANCHORS_def trust_cache_after_def isTrustedIssuer_def Let_def
      effective_config_def mock_disabled_config_def)

section \<open>Credential validator: proofs and claims\<close>

lemma validateVC_reaches_finish:
  assumes decode: "vc_decode env vcJWT = Inr (vcPayload, issuerDID)"
    and resolved: "success (resolveDID env issuerDID (trustConfig options))"
    and doc: "document (resolveDID env issuerDID (trustConfig options)) = Some didDocument"
    and key: "extractPublicKeyFromDID didDocument = Some publicKey"
    and sig: "jwt_valid (verifyJWTWithJWK env vcJWT publicKey)"
    and vc: "js_or (opt_member (jwt_payload (verifyJWTWithJWK env vcJWT publicKey)) ''vc'')
               (jwt_payload (verifyJWTWithJWK env vcJWT publicKey)) = Some vc"
    and obj: "truthy_value vc"
  shows "validateVC env anchors cache clock vcJWT options =
     vc_finish env anchors cache clock options vcPayload issuerDID vc"
  using assms by (simp add: validateVC_def Let_def)

lemma vc_finish_untrusted:
  assumes fields: "vc_field_errors vc = []"
    and unexpired: "vc_expiration_errors env (checkExpiration options \<noteq> Some False)
        (at_expiry_check clock)
        (js_or (member_of vc ''expirationDate'') (member_of vcPayload ''exp'')) = []"
    and trust_on: "checkTrust options \<noteq> Some False"
    and untrusted: "\<not> trusted (snd (trust_lookup anchors cache (trustConfig options) clock issuerDID))"
  shows "snd (vc_finish env anchors cache clock options vcPayload issuerDID vc) =
     \<lparr>vc_valid = True, vc_errors = None,
      vc_warnings = Some (vc_type_warnings vc @
        [''Issuer not in trust anchor list: '' @
           string_or (reason (snd (trust_lookup anchors cache (trustConfig options) clock issuerDID)))
             ''Unknown reason''] @
        (if checkRevocation options = Some True
         then [''Revocation checking not yet implemented''] else [])),
      vc_issuer = Some issuerDID,
      vc_issuanceDate = js_or (member_of vc ''issuanceDate'') (member_of vcPayload ''iat''),
      vc_expirationDate = js_or (member_of vc ''expirationDate'') (member_of vcPayload ''exp''),
      vc_trusted = Some False,
      vc_credentialSubject = member_of vc ''credentialSubject''\<rparr>"
proof -
  have ct: "(case checkTrust options of None \<Rightarrow> True | Some b \<Rightarrow> b) = True"
    using trust_on by (cases "checkTrust options") auto
  have ce: "(case checkExpiration options of None \<Rightarrow> True | Some b \<Rightarrow> b) =
      (checkExpiration options \<noteq> Some False)"
    by (cases "checkExpiration options") auto
  have cr: "(case checkRevocation options of None \<Rightarrow> False | Some b \<Rightarrow> b) =
      (checkRevocation options = Some True)"
    by (cases "checkRevocation options") auto
  show ?thesis
    unfolding vc_finish_def ct ce cr Let_def
    using fields unexpired untrusted by simp
qed


text \<open>
  C10. A JWT credential that decodes with an issuer, whose issuer resolves to a document with
  a key, whose signature verifies, that has \<open>@context\<close>, \<open>type\<close> and \<open>credentialSubject\<close> and is
  not expired, is reported \<open>valid: true\<close> by \<open>validateVC\<close> with trust checking on even when
  the issuer is not trusted: there is no error, \<open>trusted\<close> is \<open>false\<close> and the warnings hold
  \<open>Issuer not in trust anchor list: ...\<close>.
\<close>

theorem validateVC_untrusted_issuer_still_valid:
  assumes decode: "vc_decode env vcJWT = Inr (vcPayload, issuerDID)"
    and resolved: "success (resolveDID env issuerDID (trustConfig options))"
    and doc: "document (resolveDID env issuerDID (trustConfig options)) = Some didDocument"
    and key: "extractPublicKeyFromDID didDocument = Some publicKey"
    and sig: "jwt_valid (verifyJWTWithJWK env vcJWT publicKey)"
    and vc: "js_or (opt_member (jwt_payload (verifyJWTWithJWK env vcJWT publicKey)) ''vc'')
               (jwt_payload (verifyJWTWithJWK env vcJWT publicKey)) = Some vc"
    and obj: "truthy_value vc"
    and has_context: "truthy (member_of vc ''@context'')"
    and has_type: "truthy (member_of vc ''type'')"
    and has_subject: "truthy (member_of vc ''credentialSubject'')"
    and unexpired: "vc_expiration_errors env (checkExpiration options \<noteq> Some False)
        (at_expiry_check clock)
        (js_or (member_of vc ''expirationDate'') (member_of vcPayload ''exp'')) = []"
    and trust_on: "checkTrust options \<noteq> Some False"
    and untrusted: "\<not> trusted (snd (trust_lookup anchors cache (trustConfig options) clock issuerDID))"
  shows "vc_valid (snd (validateVC env anchors cache clock vcJWT options)) \<and>
    vc_errors (snd (validateVC env anchors cache clock vcJWT options)) = None \<and>
    vc_trusted (snd (validateVC env anchors cache clock vcJWT options)) = Some False \<and>
    (\<exists>warnings. vc_warnings (snd (validateVC env anchors cache clock vcJWT options)) = Some warnings \<and>
       ''Issuer not in trust anchor list: '' @
         string_or (reason (snd (trust_lookup anchors cache (trustConfig options) clock issuerDID)))
           ''Unknown reason'' \<in> set warnings)"
proof -
  have fields: "vc_field_errors vc = []"
    using has_context has_type has_subject by (simp add: vc_field_errors_def)
  have "validateVC env anchors cache clock vcJWT options =
      vc_finish env anchors cache clock options vcPayload issuerDID vc"
    using decode resolved doc key sig vc obj by (rule validateVC_reaches_finish)
  then show ?thesis
    by (simp add: vc_finish_untrusted [OF fields unexpired trust_on untrusted])
qed

theorem validateVC_untrusted_issuer_still_valid_witness:
  "snd (validateVC (example_env JNull) MOCK_TRUST_ANCHORS Map.empty example_clock ''h.p.s''
         default_vc_options) =
     \<lparr>vc_valid = True, vc_errors = None,
      vc_warnings = Some [''Issuer not in trust anchor list: Not in trust anchor list''],
      vc_issuer = Some (JStr ''did:web:unknown.example''),
      vc_issuanceDate = Some (JNum 1700000000), vc_expirationDate = None,
      vc_trusted = Some False,
      vc_credentialSubject = Some (JObj [(''id'', JStr ''did:example:holder'')])\<rparr>"
proof -
  let ?env = "example_env JNull"
  let ?vc = "JObj [(''@context'', JArr [JStr ''https://www.w3.org/2018/credentials/v1'']),
                   (''type'', JArr [JStr ''VerifiableCredential'']),
                   (''credentialSubject'', JObj [(''id'', JStr ''did:example:holder'')])]"
  have decode: "vc_decode ?env ''h.p.s'' = Inr (example_vc_payload, JStr ''did:web:unknown.example'')"
    by code_simp
  have resolved: "success (resolveDID ?env (JStr ''did:web:unknown.example'')
      (trustConfig default_vc_options))"
    by (simp add: example_env_def)
  have doc: "document (resolveDID ?env (JStr ''did:web:unknown.example'')
      (trustConfig default_vc_options)) = Some example_did_document"
    by (simp add: example_env_def)
  have key: "extractPublicKeyFromDID example_did_document = Some ''jwk-1''"
    by code_simp
  have sig: "jwt_valid (verifyJWTWithJWK ?env ''h.p.s'' ''jwk-1'')"
    by (simp add: example_env_def)
  have vc: "js_or (opt_member (jwt_payload (verifyJWTWithJWK ?env ''h.p.s'' ''jwk-1'')) ''vc'')
               (jwt_payload (verifyJWTWithJWK ?env ''h.p.s'' ''jwk-1'')) = Some ?vc"
    by code_simp
  have obj: "truthy_value ?vc" by simp
  have has_context: "truthy (member_of ?vc ''@context'')" by (simp add: truthy_def)
  have has_type: "truthy (member_of ?vc ''type'')" by (simp add: truthy_def)
  have has_subject: "truthy (member_of ?vc ''credentialSubject'')" by (simp add: truthy_def)
  have unexpired: "vc_expiration_errors ?env (checkExpiration default_vc_options \<noteq> Some False)
        (at_expiry_check example_clock)
        (js_or (member_of ?vc ''expirationDate'') (member_of example_vc_payload ''exp'')) = []"
    by code_simp
  have trust_on: "checkTrust default_vc_options \<noteq> Some False"
    by (simp add: default_vc_options_def)
  have untrusted: "\<not> trusted (snd (trust_lookup MOCK_TRUST_ANCHORS Map.empty
      (trustConfig default_vc_options) example_clock (JStr ''did:web:unknown.example'')))"
    by code_simp
  have run: "snd (validateVC ?env MOCK_TRUST_ANCHORS Map.empty example_clock ''h.p.s''
         default_vc_options) =
     \<lparr>vc_valid = True, vc_errors = None,
      vc_warnings = Some [''Issuer not in trust anchor list: Not in trust anchor list''],
      vc_issuer = Some (JStr ''did:web:unknown.example''),
      vc_issuanceDate = Some (JNum 1700000000), vc_expirationDate = None,
      vc_trusted = Some False,
      vc_credentialSubject = Some (JObj [(''id'', JStr ''did:example:holder'')])\<rparr>"
    by code_simp
  from validateVC_untrusted_issuer_still_valid
    [OF decode resolved doc key sig vc obj has_context has_type has_subject unexpired trust_on untrusted]
    run
  show ?thesis by simp
qed

section \<open>Selective disclosure: proofs and claims\<close>



lemma sd_finish_ignores_minimum:
  "sd_valid (snd (sd_finish env anchors cache clock (options\<lparr>requireMinimumDisclosures := m\<rparr>)
       decoded issuerDID verified_payload)) =
   sd_valid (snd (sd_finish env anchors cache clock options decoded issuerDID verified_payload)) \<and>
   sd_errors (snd (sd_finish env anchors cache clock (options\<lparr>requireMinimumDisclosures := m\<rparr>)
       decoded issuerDID verified_payload)) =
   sd_errors (snd (sd_finish env anchors cache clock options decoded issuerDID verified_payload))"
  unfolding sd_finish_def Let_def
  by (simp split: sum.splits)

lemma validateSDJWT_ignores_minimum:
  "sd_valid (snd (validateSDJWT env anchors cache clock tok (options\<lparr>requireMinimumDisclosures := m\<rparr>))) =
   sd_valid (snd (validateSDJWT env anchors cache clock tok options)) \<and>
   sd_errors (snd (validateSDJWT env anchors cache clock tok (options\<lparr>requireMinimumDisclosures := m\<rparr>))) =
   sd_errors (snd (validateSDJWT env anchors cache clock tok options))"
  unfolding validateSDJWT_def Let_def
  by (simp add: sd_finish_ignores_minimum split: list.splits sum.splits option.splits)



lemma higher_claim_iff:
  "higher_claim claims N key \<longleftrightarrow>
     (\<exists>M. starts_with ''age_over_'' key \<and> parseInt10 (drop 9 key) = Some M \<and> N \<le> M \<and>
          member_of claims key = Some (JBool True))"
  by (cases "parseInt10 (drop 9 key)") (simp_all add: higher_claim_def)

lemma age_over_claims_exact:
  assumes "member_of claims (''age_over_'' @ show_int N) = Some (JBool True)"
  shows "age_over_claims env today claims N = \<lparr>verified = True, ageOver = Some N, age_error = None\<rparr>"
  using assms by (simp add: age_over_claims_def)

lemma age_over_claims_higher:
  assumes not_exact: "member_of claims (''age_over_'' @ show_int N) \<noteq> Some (JBool True)"
    and some: "\<exists>key \<in> set (object_keys claims). higher_claim claims N key"
  shows "\<exists>key \<in> set (object_keys claims). \<exists>M. higher_claim claims N key \<and>
      parseInt10 (drop 9 key) = Some M \<and> N \<le> M \<and>
      age_over_claims env today claims N = \<lparr>verified = True, ageOver = Some M, age_error = None\<rparr>"
proof -
  from some have "find (higher_claim claims N) (object_keys claims) \<noteq> None"
    by (auto simp: find_None_iff)
  then obtain key where found: "find (higher_claim claims N) (object_keys claims) = Some key"
    by blast
  then have mem: "key \<in> set (object_keys claims)" and hc: "higher_claim claims N key"
    using find_Some_mem [of "higher_claim claims N"] by blast+
  from hc obtain M where M: "parseInt10 (drop 9 key) = Some M" "N \<le> M"
    unfolding higher_claim_iff by blast
  have "age_over_claims env today claims N = \<lparr>verified = True, ageOver = Some M, age_error = None\<rparr>"
    using not_exact found M(1) by (simp add: age_over_claims_def)
  with mem hc M show ?thesis by blast
qed

lemma age_over_claims_birthdate:
  assumes not_exact: "member_of claims (''age_over_'' @ show_int N) \<noteq> Some (JBool True)"
    and none: "\<not> (\<exists>key \<in> set (object_keys claims). higher_claim claims N key)"
  shows "(verified (age_over_claims env today claims N) \<longleftrightarrow>
      (\<exists>b age. js_or (member_of claims ''birth_date'') (member_of claims ''birthdate'') = Some b \<and>
         truthy_value b \<and> calculateAge today (parse_ymd env b) = Some age \<and> N \<le> age)) \<and>
    (\<forall>b age. js_or (member_of claims ''birth_date'') (member_of claims ''birthdate'') = Some b \<and>
         truthy_value b \<and> calculateAge today (parse_ymd env b) = Some age \<and> N \<le> age \<longrightarrow>
       age_over_claims env today claims N = \<lparr>verified = True, ageOver = Some age, age_error = None\<rparr>)"
proof -
  from none have nf: "find (higher_claim claims N) (object_keys claims) = None"
    by (auto simp: find_None_iff)
  show ?thesis
    unfolding age_over_claims_def Let_def nf option.case
    using not_exact by (auto split: option.splits)
qed

lemma sd_finish_claims:
  assumes "sd_valid (snd (sd_finish env anchors cache clock options decoded issuerDID vp))"
  shows "\<exists>c. disclosedClaims (snd (sd_finish env anchors cache clock options decoded issuerDID vp)) = Some c
      \<and> truthy_value c \<and> js_or (member_of decoded ''disclosures'') (Some (JObj [])) = Some c"
proof -
  have t: "\<exists>c. js_or (member_of decoded ''disclosures'') (Some (JObj [])) = Some c \<and> truthy_value c"
    by (cases "member_of decoded ''disclosures''") (auto simp: js_or_def truthy_def)
  then obtain c where c: "js_or (member_of decoded ''disclosures'') (Some (JObj [])) = Some c"
      "truthy_value c" by blast
  from assms show ?thesis
    unfolding sd_finish_def Let_def c
    by (auto simp: sd_catch_def sd_failure_def c split: sum.splits if_splits)
qed

lemma validateSDJWT_valid_claims:
  assumes "sd_valid (snd (validateSDJWT env anchors cache clock tok options))"
  shows "\<exists>c. disclosedClaims (snd (validateSDJWT env anchors cache clock tok options)) = Some c
      \<and> truthy_value c"
  using assms
  unfolding validateSDJWT_def Let_def
  by (auto simp: sd_failure_def sd_catch_def
      split: list.splits sum.splits option.splits if_splits dest: sd_finish_claims)

lemma verifyAgeOver_after_validation:
  assumes valid: "sd_valid (snd (validateSDJWT env anchors cache clock tok age_over_options))"
    and claims: "disclosedClaims (snd (validateSDJWT env anchors cache clock tok age_over_options)) =
        Some claims"
  shows "snd (verifyAgeOver env anchors cache clock today tok N) = age_over_claims env today claims N"
proof -
  from validateSDJWT_valid_claims [OF valid] claims have "truthy_value claims" by auto
  then have "js_or (Some claims) (Some (JObj [])) = Some claims"
    by (simp add: js_or_def truthy_def)
  with valid claims show ?thesis
    by (simp add: verifyAgeOver_def Let_def)
qed

text \<open>
  C8. For a token that passes validation, with \<open>claims\<close> its disclosed claims and \<open>N\<close> the
  threshold: when \<open>age_over_N\<close> is \<open>true\<close> the check is verified with \<open>ageOver = N\<close>;
  otherwise, when some disclosed \<open>age_over_M\<close> with \<open>M \<ge> N\<close> is \<open>true\<close>, it is verified with
  the \<open>M\<close> of such a claim; otherwise, and only then, the birth date decides: the check is
  verified exactly when \<open>birth_date\<close> (or \<open>birthdate\<close>) gives an age of at least \<open>N\<close>, and that
  age is reported.
\<close>

theorem verifyAgeOver_precedence:
  assumes valid: "sd_valid (snd (validateSDJWT env anchors cache clock tok age_over_options))"
    and claims: "disclosedClaims (snd (validateSDJWT env anchors cache clock tok age_over_options)) =
        Some claims"
  shows "(member_of claims (''age_over_'' @ show_int N) = Some (JBool True) \<longrightarrow>
       snd (verifyAgeOver env anchors cache clock today tok N) =
         \<lparr>verified = True, ageOver = Some N, age_error = None\<rparr>) \<and>
    (member_of claims (''age_over_'' @ show_int N) \<noteq> Some (JBool True) \<and>
     (\<exists>key M. key \<in> set (object_keys claims) \<and> starts_with ''age_over_'' key \<and>
        parseInt10 (drop 9 key) = Some M \<and> N \<le> M \<and> member_of claims key = Some (JBool True)) \<longrightarrow>
       (\<exists>key M. key \<in> set (object_keys claims) \<and> starts_with ''age_over_'' key \<and>
          parseInt10 (drop 9 key) = Some M \<and> N \<le> M \<and> member_of claims key = Some (JBool True) \<and>
          snd (verifyAgeOver env anchors cache clock today tok N) =
            \<lparr>verified = True, ageOver = Some M, age_error = None\<rparr>)) \<and>
    (member_of claims (''age_over_'' @ show_int N) \<noteq> Some (JBool True) \<and>
     \<not> (\<exists>key M. key \<in> set (object_keys claims) \<and> starts_with ''age_over_'' key \<and>
        parseInt10 (drop 9 key) = Some M \<and> N \<le> M \<and> member_of claims key = Some (JBool True)) \<longrightarrow>
       (verified (snd (verifyAgeOver env anchors cache clock today tok N)) \<longleftrightarrow>
          (\<exists>b age. js_or (member_of claims ''birth_date'') (member_of claims ''birthdate'') = Some b \<and>
             truthy_value b \<and> calculateAge today (parse_ymd env b) = Some age \<and> N \<le> age)) \<and>
       (\<forall>b age. js_or (member_of claims ''birth_date'') (member_of claims ''birthdate'') = Some b \<and>
             truthy_value b \<and> calculateAge today (parse_ymd env b) = Some age \<and> N \<le> age \<longrightarrow>
          snd (verifyAgeOver env anchors cache clock today tok N) =
            \<lparr>verified = True, ageOver = Some age, age_error = None\<rparr>))"
proof -
  let ?exact = "member_of claims (''age_over_'' @ show_int N) = Some (JBool True)"
  let ?r = "snd (verifyAgeOver env anchors cache clock today tok N)"
  have r: "?r = age_over_claims env today claims N"
    using valid claims by (rule verifyAgeOver_after_validation)
  have higher: "(\<exists>key M. key \<in> set (object_keys claims) \<and> starts_with ''age_over_'' key \<and>
        parseInt10 (drop 9 key) = Some M \<and> N \<le> M \<and> member_of claims key = Some (JBool True)) \<longleftrightarrow>
      (\<exists>key \<in> set (object_keys claims). higher_claim claims N key)"
    unfolding higher_claim_iff by blast
  have one: "?exact \<longrightarrow> ?r = \<lparr>verified = True, ageOver = Some N, age_error = None\<rparr>"
    unfolding r by (simp add: age_over_claims_exact)
  have two: "\<not> ?exact \<and> (\<exists>key \<in> set (object_keys claims). higher_claim claims N key) \<longrightarrow>
       (\<exists>key M. key \<in> set (object_keys claims) \<and> starts_with ''age_over_'' key \<and>
          parseInt10 (drop 9 key) = Some M \<and> N \<le> M \<and> member_of claims key = Some (JBool True) \<and>
          ?r = \<lparr>verified = True, ageOver = Some M, age_error = None\<rparr>)"
  proof
    assume h: "\<not> ?exact \<and> (\<exists>key \<in> set (object_keys claims). higher_claim claims N key)"
    from age_over_claims_higher [of claims N env today] h
    obtain key M where km: "key \<in> set (object_keys claims)" "higher_claim claims N key"
        "parseInt10 (drop 9 key) = Some M" "N \<le> M"
        "age_over_claims env today claims N = \<lparr>verified = True, ageOver = Some M, age_error = None\<rparr>"
      by blast
    from km(2) have "starts_with ''age_over_'' key" "member_of claims key = Some (JBool True)"
      by (simp_all add: higher_claim_def)
    with km show "\<exists>key M. key \<in> set (object_keys claims) \<and> starts_with ''age_over_'' key \<and>
          parseInt10 (drop 9 key) = Some M \<and> N \<le> M \<and> member_of claims key = Some (JBool True) \<and>
          ?r = \<lparr>verified = True, ageOver = Some M, age_error = None\<rparr>"
      unfolding r by blast
  qed
  have three: "\<not> ?exact \<and> \<not> (\<exists>key \<in> set (object_keys claims). higher_claim claims N key) \<longrightarrow>
       (verified ?r \<longleftrightarrow>
          (\<exists>b age. js_or (member_of claims ''birth_date'') (member_of claims ''birthdate'') = Some b \<and>
             truthy_value b \<and> calculateAge today (parse_ymd env b) = Some age \<and> N \<le> age)) \<and>
       (\<forall>b age. js_or (member_of claims ''birth_date'') (member_of claims ''birthdate'') = Some b \<and>
             truthy_value b \<and> calculateAge today (parse_ymd env b) = Some age \<and> N \<le> age \<longrightarrow>
          ?r = \<lparr>verified = True, ageOver = Some age, age_error = None\<rparr>)"
    unfolding r using age_over_claims_birthdate [of claims N env today] by blast
  from one two three show ?thesis unfolding higher by blast
qed

theorem verifyAgeOver_precedence_witness:
  "snd (verifyAgeOver (example_env (JObj [(''age_over_21'', JBool True)])) MOCK_TRUST_ANCHORS
         Map.empty example_clock (2026, 10, 2) ''jwt~d1~'' 18) =
     \<lparr>verified = True, ageOver = Some 21, age_error = None\<rparr>"
proof -
  let ?claims = "JObj [(''age_over_21'', JBool True)]"
  let ?env = "example_env ?claims"
  have run: "snd (validateSDJWT ?env MOCK_TRUST_ANCHORS Map.empty example_clock ''jwt~d1~''
      age_over_options) =
     \<lparr>sd_valid = True, sd_errors = None,
      sd_warnings = Some [''Issuer not in trust anchor list: Not in trust anchor list''],
      sd_issuer = Some (JStr ''did:web:unknown.example''),
      disclosedClaims = Some ?claims,
      sd_issuanceDate = Some ''2023-11-14T22:13:20.000Z'',
      sd_expirationDate = None, sd_trusted = Some False, disclosureCount = Some 1\<rparr>"
    by (simp add: validateSDJWT_def sd_issuer_of_def sd_extractPublicKeyFromDID_def
        example_did_document_def
        sd_finish_def Let_def example_env_def example_vc_payload_def js_or_def truthy_def
        opt_member_def iso_of_seconds_def seconds_to_date_def date_of_ms_def
        sd_expiration_errors_def age_over_options_def example_sd_decoded_def
        minimum_disclosure_warnings_def trust_lookup_def
        example_clock_def isTrustedIssuer_def effective_config_def default_trust_config_def
        cache_ttl_ms_def MOCK_TRUST_ANCHORS_def string_or_def)
  have valid: "sd_valid (snd (validateSDJWT ?env MOCK_TRUST_ANCHORS Map.empty example_clock
      ''jwt~d1~'' age_over_options))"
    unfolding run by simp
  have claims: "disclosedClaims (snd (validateSDJWT ?env MOCK_TRUST_ANCHORS Map.empty example_clock
      ''jwt~d1~'' age_over_options)) = Some ?claims"
    unfolding run by simp
  have not_exact: "member_of ?claims (''age_over_'' @ show_int 18) \<noteq> Some (JBool True)"
    by (simp add: show_int_def digit_char_def)
  have higher: "\<exists>key M. key \<in> set (object_keys ?claims) \<and> starts_with ''age_over_'' key \<and>
        parseInt10 (drop 9 key) = Some M \<and> 18 \<le> M \<and> member_of ?claims key = Some (JBool True)"
    by (simp add: starts_with_def parseInt10_def is_space_def is_digit_def decimal_value_def
        digit_value_def)
  from verifyAgeOver_precedence [OF valid claims, of 18 "(2026, 10, 2)"] not_exact higher
  obtain key M where km: "key \<in> set (object_keys ?claims)" "parseInt10 (drop 9 key) = Some M"
      "snd (verifyAgeOver ?env MOCK_TRUST_ANCHORS Map.empty example_clock (2026, 10, 2) ''jwt~d1~'' 18) =
         \<lparr>verified = True, ageOver = Some M, age_error = None\<rparr>"
    by blast
  from km(1) have "key = ''age_over_21''" by simp
  with km(2) have "M = 21"
    by (simp add: parseInt10_def is_space_def is_digit_def decimal_value_def digit_value_def)
  with km(3) show ?thesis by simp
qed

section \<open>Mobile documents: claims\<close>

lemma verifyMSO_valid_is_bare:
  "mso_valid (fst (verifyMSO mso now)) \<longleftrightarrow>
     fst (verifyMSO mso now) = \<lparr>mso_valid = True, mso_error = None\<rparr>"
  by (simp add: verifyMSO_def Let_def split: option.splits)

text \<open>
  C7 asks that \<open>verifyMSO\<close> never return a bare \<open>valid: true\<close> while the signature check is
  missing. For a structurally sound object inside its validity window the source returns
  exactly \<open>{ valid: true }\<close>: the result has no warning member, and the limitation goes to
  the log only.
\<close>

theorem verifyMSO_returns_bare_valid:
  "verifyMSO example_mso 1793577600000 =
     (\<lparr>mso_valid = True, mso_error = None\<rparr>,
      [(LogInfo, ''Verifying MSO''),
       (LogWarn, ''MSO verification incomplete - signature check not yet implemented'')])"
  by (simp add: verifyMSO_def example_mso_def falsy_string_def)

section \<open>Audit log: claims\<close>

lemma logAuditEvent_hash_columns:
  "map current_hash (fst (logAuditEvent db False now event)) = map current_hash db @ [None] \<and>
   map previous_hash (fst (logAuditEvent db False now event)) = map previous_hash db @ [None]"
  by (simp add: logAuditEvent_def)

text \<open>
  C4 asks that the append compute \<open>current_hash\<close> from the event and the previous entry's
  hash. \<open>logAuditEvent\<close>, the only writer of \<open>audit_logs\<close>, stores both hash columns as
  \<open>NULL\<close>: two appends in a row leave no link between the entries.
\<close>

theorem logAuditEvent_stores_no_hash:
  "map (\<lambda>r. (audit_id r, previous_hash r, current_hash r))
     (fst (logAuditEvent (fst (logAuditEvent [] False 1793577600000 example_audit_event))
        False 1793577600001 example_audit_event)) =
   [(1, None, None), (2, None, None)]"
  by (simp add: logAuditEvent_def next_audit_id_def)

end
